theory Spec2Isabelle
  imports Complex_Main "HOL-Library.Word"
begin

section \<open>The protocol test client of \<^verbatim>\<open>src/renderer.ts\<close>\<close>

text \<open>
  The renderer keeps the whole protocol engine in module-level variables
  (\<^verbatim>\<open>p2pcf\<close>, \<^verbatim>\<open>currentPeer\<close>, \<^verbatim>\<open>currentPromptId\<close>, \<^verbatim>\<open>currentBuffer\<close>,
  \<^verbatim>\<open>currentReasoningBuffer\<close>, \<^verbatim>\<open>isVersionNegotiated\<close>, \<^verbatim>\<open>isCompatible\<close>,
  \<^verbatim>\<open>currentModelInfo\<close>) and changes them from event handlers. The embedding is
  explicit state passing over a record of these variables, extended by the
  observable effects of the handlers: the lines written with \<^verbatim>\<open>appendLog\<close>, the
  console messages, the status line, the two result views and the payloads handed
  to the transport. \<^verbatim>\<open>handleIncoming\<close> can throw while it evaluates a template
  literal; it returns an outcome, and the \<^verbatim>\<open>msg\<close> handler that calls it has the
  \<^verbatim>\<open>catch\<close>.
\<close>

subsection \<open>JavaScript values\<close>

text \<open>
  A JavaScript number is a double: \<^verbatim>\<open>NaN\<close>, one of the two infinities, or a finite
  value. Only the sign and the finiteness of a number are ever inspected by the
  program, so a finite double is represented by the rational it denotes (both zeros
  are \<open>Fin 0\<close>).
\<close>

datatype jsnum = NaN | PosInf | NegInf | Fin rat

text \<open>
  What \<^verbatim>\<open>JSON.parse\<close> can return, together with \<^verbatim>\<open>undefined\<close>, the value of a
  property that an object does not have.
\<close>

datatype jsval =
    JUndefined
  | JNull
  | JBool bool
  | JNum jsnum
  | JStr string
  | JArr "jsval list"
  | JObj "(string \<times> jsval) list"

text \<open>\<^verbatim>\<open>ToBoolean\<close>, the test behind \<^verbatim>\<open>!x\<close>, \<^verbatim>\<open>x && y\<close>, \<^verbatim>\<open>x || y\<close> and \<^verbatim>\<open>x ? a : b\<close>.\<close>

fun num_truthy :: "jsnum \<Rightarrow> bool" where
  "num_truthy NaN = False"
| "num_truthy PosInf = True"
| "num_truthy NegInf = True"
| "num_truthy (Fin q) = (q \<noteq> 0)"

fun truthy :: "jsval \<Rightarrow> bool" where
  "truthy JUndefined = False"
| "truthy JNull = False"
| "truthy (JBool b) = b"
| "truthy (JNum n) = num_truthy n"
| "truthy (JStr s) = (s \<noteq> [])"
| "truthy (JArr xs) = True"
| "truthy (JObj kvs) = True"

text \<open>\<^verbatim>\<open>n > 0\<close> on numbers.\<close>

fun num_gt_zero :: "jsnum \<Rightarrow> bool" where
  "num_gt_zero NaN = False"
| "num_gt_zero PosInf = True"
| "num_gt_zero NegInf = False"
| "num_gt_zero (Fin q) = (0 < q)"

text \<open>
  Strict equality \<^verbatim>\<open>a === b\<close> where \<open>a\<close> and \<open>b\<close> come from two different calls of
  \<^verbatim>\<open>JSON.parse\<close> (or one of them is a string or \<^verbatim>\<open>null\<close> made by the program):
  primitives are compared by value, \<^verbatim>\<open>NaN\<close> equals nothing, and two arrays or
  objects are never the same reference.
\<close>

fun strict_eq :: "jsval \<Rightarrow> jsval \<Rightarrow> bool" where
  "strict_eq JUndefined b = (b = JUndefined)"
| "strict_eq JNull b = (b = JNull)"
| "strict_eq (JBool x) b = (b = JBool x)"
| "strict_eq (JNum n) b = (n \<noteq> NaN \<and> b = JNum n)"
| "strict_eq (JStr x) b = (b = JStr x)"
| "strict_eq (JArr xs) b = False"
| "strict_eq (JObj kvs) b = False"

text \<open>\<^verbatim>\<open>a || b\<close> and \<^verbatim>\<open>a ?? b\<close>.\<close>

definition js_or :: "jsval \<Rightarrow> jsval \<Rightarrow> jsval" where
  "js_or a b = (if truthy a then a else b)"

definition js_nullish :: "jsval \<Rightarrow> jsval \<Rightarrow> jsval" where
  "js_nullish a b = (if a = JUndefined \<or> a = JNull then b else a)"

text \<open>
  Property access \<^verbatim>\<open>msg.k\<close> on a parsed value: the own property of an object,
  \<^verbatim>\<open>undefined\<close> when the object lacks it and on every value that is not an object
  (none of the names the program reads is inherited from a prototype).
\<close>

fun field :: "jsval \<Rightarrow> string \<Rightarrow> jsval" where
  "field (JObj kvs) k = (case map_of kvs k of None \<Rightarrow> JUndefined | Some v \<Rightarrow> v)"
| "field JUndefined k = JUndefined"
| "field JNull k = JUndefined"
| "field (JBool b) k = JUndefined"
| "field (JNum n) k = JUndefined"
| "field (JStr s) k = JUndefined"
| "field (JArr xs) k = JUndefined"

text \<open>\<^verbatim>\<open>typeof v === 'string'\<close>.\<close>

fun is_string :: "jsval \<Rightarrow> bool" where
  "is_string (JStr s) = True"
| "is_string JUndefined = False"
| "is_string JNull = False"
| "is_string (JBool b) = False"
| "is_string (JNum n) = False"
| "is_string (JArr xs) = False"
| "is_string (JObj kvs) = False"

text \<open>
  Whether the conversion of a parsed value to text returns. A template literal
  converts each interpolated value; on an object the conversion calls its
  \<^verbatim>\<open>toString\<close>, then its \<^verbatim>\<open>valueOf\<close>. A parsed object that has a property named
  \<^verbatim>\<open>toString\<close> hides the inherited function by a value that cannot be called, and
  \<^verbatim>\<open>valueOf\<close> gives no primitive, so the conversion throws a \<^verbatim>\<open>TypeError\<close>. An array
  is joined from the conversions of its elements. Everything else converts.
\<close>

fun printable :: "jsval \<Rightarrow> bool" where
  "printable (JArr xs) = list_all printable xs"
| "printable (JObj kvs) = (''toString'' \<notin> set (map fst kvs))"
| "printable JUndefined = True"
| "printable JNull = True"
| "printable (JBool b) = True"
| "printable (JNum n) = True"
| "printable (JStr s) = True"

text \<open>
  A template literal is kept as its pieces: \<open>T\<close> is literal text, \<open>V\<close> is an
  interpolated value \<^verbatim>\<open>${...}\<close> before its conversion to text. Evaluating the
  literal returns exactly when every interpolated value converts.
\<close>

datatype piece = T string | V jsval

type_synonym line = "piece list"

fun piece_printable :: "piece \<Rightarrow> bool" where
  "piece_printable (T x) = True"
| "piece_printable (V v) = printable v"

definition line_printable :: "line \<Rightarrow> bool" where
  "line_printable l = list_all piece_printable l"

subsection \<open>Outgoing messages\<close>

datatype role = System | User | Assistant

record message =
  role :: role
  content :: string

text \<open>The union type \<^verbatim>\<open>OutgoingMessage\<close>; \<^verbatim>\<open>max_tokens\<close> is an optional property.\<close>

datatype outgoing =
    Hello (clientId: string) (impl: string) (version: string)
  | VersionNegotiate (protocolVersion: string) (minCompatibleVersion: string)
  | Prompt (prompt_id: string) (messages: "message list") (max_tokens: "jsnum option")
  | GetModel

definition PROTOCOL_VERSION :: string where
  "PROTOCOL_VERSION = ''1.0.0''"

definition MIN_COMPATIBLE_VERSION :: string where
  "MIN_COMPATIBLE_VERSION = ''1.0.0''"

text \<open>
  \<^verbatim>\<open>JSON.stringify\<close>, up to the rendering of the tree as text: the properties in
  insertion order, an absent optional property left out, and a number that is not
  finite written as \<^verbatim>\<open>null\<close>.
\<close>

fun stringify_num :: "jsnum \<Rightarrow> jsval" where
  "stringify_num (Fin q) = JNum (Fin q)"
| "stringify_num NaN = JNull"
| "stringify_num PosInf = JNull"
| "stringify_num NegInf = JNull"

fun role_name :: "role \<Rightarrow> string" where
  "role_name System = ''system''"
| "role_name User = ''user''"
| "role_name Assistant = ''assistant''"

definition stringify_message :: "message \<Rightarrow> jsval" where
  "stringify_message m = JObj [(''role'', JStr (role_name (role m))), (''content'', JStr (content m))]"

fun JSON_stringify :: "outgoing \<Rightarrow> jsval" where
  "JSON_stringify (Hello c i v) =
     JObj [(''t'', JStr ''hello''), (''clientId'', JStr c), (''impl'', JStr i), (''version'', JStr v)]"
| "JSON_stringify (VersionNegotiate p m) =
     JObj [(''t'', JStr ''version_negotiate''), (''protocolVersion'', JStr p),
           (''minCompatibleVersion'', JStr m)]"
| "JSON_stringify (Prompt i ms mt) =
     JObj ([(''t'', JStr ''prompt''), (''id'', JStr i), (''messages'', JArr (map stringify_message ms))]
           @ (case mt of None \<Rightarrow> [] | Some n \<Rightarrow> [(''max_tokens'', stringify_num n)]))"
| "JSON_stringify GetModel = JObj [(''t'', JStr ''get_model'')]"

subsection \<open>The program state\<close>

text \<open>
  A peer object of the transport library. \<^verbatim>\<open>currentPeer === peer\<close> compares object
  identity, which is \<open>peer_ref\<close>. The library makes \<^verbatim>\<open>id\<close> and \<^verbatim>\<open>client_id\<close>
  (strings, or absent), so the log lines of the two peer handlers always convert.
\<close>

datatype peer = Peer (peer_ref: nat) (peer_id: jsval) (peer_client_id: jsval)

record model_info =
  mi_id :: jsval
  mi_displayName :: jsval
  mi_installed :: jsval

text \<open>
  The module-level variables, then the effects. \<open>p2pcf\<close> records whether the
  variable holds a client (\<^verbatim>\<open>p2pcf !== null\<close>). \<open>currentPromptId\<close> and
  \<open>isCompatible\<close> are declared \<^verbatim>\<open>string | null\<close> and \<^verbatim>\<open>boolean\<close>, but the handlers
  store \<^verbatim>\<open>msg.id\<close> and \<^verbatim>\<open>msg.compatible\<close> unchecked, so they hold any parsed value.
  \<open>logView\<close> has the lines of \<^verbatim>\<open>appendLog\<close> without their time stamps, oldest
  first; \<open>sent\<close> has the payloads the transport accepted, oldest first.
\<close>

record state =
  p2pcf :: bool
  currentPeer :: "peer option"
  currentPromptId :: jsval
  currentBuffer :: string
  currentReasoningBuffer :: string
  isVersionNegotiated :: bool
  isCompatible :: jsval
  currentModelInfo :: "model_info option"
  logView :: "line list"
  console :: "string list"
  status :: "line \<times> bool"
  resultView :: string
  reasoningView :: string
  modelStatus :: line
  sent :: "(peer \<times> jsval) list"

text \<open>The values of the declarations at lines 282 to 289 and of \<^verbatim>\<open>setupUI\<close>.\<close>

definition initial :: state where
  "initial = \<lparr> p2pcf = False, currentPeer = None, currentPromptId = JNull,
     currentBuffer = [], currentReasoningBuffer = [],
     isVersionNegotiated = False, isCompatible = JBool False, currentModelInfo = None,
     logView = [], console = [],
     status = ([T ''Disconnected. Enter room ID and click Connect.''], False),
     resultView = [], reasoningView = [],
     modelStatus = [T ''Model: (waiting for info...)''], sent = [] \<rparr>"

definition appendLog :: "line \<Rightarrow> state \<Rightarrow> state" where
  "appendLog l s = s\<lparr>logView := logView s @ [l]\<rparr>"

definition setStatus :: "line \<Rightarrow> bool \<Rightarrow> state \<Rightarrow> state" where
  "setStatus text isError s = s\<lparr>status := (text, isError)\<rparr>"

definition setResult :: "string \<Rightarrow> state \<Rightarrow> state" where
  "setResult text s = s\<lparr>resultView := text\<rparr>"

definition setReasoning :: "string \<Rightarrow> state \<Rightarrow> state" where
  "setReasoning text s = s\<lparr>reasoningView := text\<rparr>"

text \<open>\<^verbatim>\<open>log\<close> and \<^verbatim>\<open>logError\<close> write to the console; the message is kept.\<close>

definition log :: "string \<Rightarrow> state \<Rightarrow> state" where
  "log m s = s\<lparr>console := console s @ [m]\<rparr>"

definition logError :: "string \<Rightarrow> state \<Rightarrow> state" where
  "logError m s = s\<lparr>console := console s @ [m]\<rparr>"

text \<open>
  The transport's \<^verbatim>\<open>send\<close> either accepts a payload or throws. Whether it accepts
  is not decided by this program, so it is a parameter of every handler that sends;
  \<open>None\<close> is the exception.
\<close>

type_synonym transport = "peer \<Rightarrow> jsval \<Rightarrow> bool"

definition send :: "transport \<Rightarrow> peer \<Rightarrow> jsval \<Rightarrow> state \<Rightarrow> state option" where
  "send tx p payload s = (if tx p payload then Some (s\<lparr>sent := sent s @ [(p, payload)]\<rparr>) else None)"

text \<open>
  A handler either returns or throws the \<^verbatim>\<open>TypeError\<close> of a template literal. The
  assignments made before the throw stay, so both results carry the variables.
\<close>

datatype outcome = Returned state | Threw state

fun and_then :: "outcome \<Rightarrow> (state \<Rightarrow> outcome) \<Rightarrow> outcome" where
  "and_then (Returned s) f = f s"
| "and_then (Threw s) f = Threw s"

text \<open>
  \<^verbatim>\<open>appendLog\<close> and \<^verbatim>\<open>setStatus\<close> called with a template literal: the literal is
  evaluated first, and when it throws the call does not happen.
\<close>

definition log_line :: "line \<Rightarrow> state \<Rightarrow> outcome" where
  "log_line l s = (if line_printable l then Returned (appendLog l s) else Threw s)"

definition status_line :: "line \<Rightarrow> bool \<Rightarrow> state \<Rightarrow> outcome" where
  "status_line l isError s = (if line_printable l then Returned (setStatus l isError s) else Threw s)"

subsection \<open>Peer events (\<^verbatim>\<open>createClient\<close>, lines 301 to 350)\<close>

definition peer_line :: "string \<Rightarrow> peer \<Rightarrow> line" where
  "peer_line what peer =
     [T what, V (peer_id peer), T '' client_id='', V (js_nullish (peer_client_id peer) (JStr ''n/a''))]"

text \<open>
  The \<^verbatim>\<open>peerconnect\<close> handler. The two sends share one \<^verbatim>\<open>try\<close> block: when the
  first throws, the second is not attempted.
\<close>

definition negotiate_failed :: "state \<Rightarrow> state" where
  "negotiate_failed s =
     setStatus [T ''Failed to negotiate protocol version''] True
       (logError ''Failed to send hello/version_negotiate'' s)"

definition on_peerconnect :: "transport \<Rightarrow> peer \<Rightarrow> state \<Rightarrow> state" where
  "on_peerconnect tx peer s =
     (let s1 = s\<lparr>currentPeer := Some peer, isVersionNegotiated := False, isCompatible := JBool False\<rparr>;
          s2 = appendLog (peer_line ''Peer connected: id='' peer) s1;
          s3 = setStatus [T ''Connected to peer. Negotiating protocol version...''] False s2;
          s4 = log ''Peer connected'' s3
      in case send tx peer (JSON_stringify (Hello ''test-client'' ''mydeviceai-desktop-test'' ''1.0.0'')) s4 of
           None \<Rightarrow> negotiate_failed s4
         | Some s5 \<Rightarrow>
             (let s6 = appendLog [T ''Sent hello message to peer''] s5
              in case send tx peer
                        (JSON_stringify (VersionNegotiate PROTOCOL_VERSION MIN_COMPATIBLE_VERSION)) s6 of
                   None \<Rightarrow> negotiate_failed s6
                 | Some s7 \<Rightarrow>
                     appendLog [T ''Sent version_negotiate: protocol='', T PROTOCOL_VERSION,
                                T '', minCompat='', T MIN_COMPATIBLE_VERSION] s7))"

text \<open>The \<^verbatim>\<open>peerclose\<close> handler.\<close>

definition is_current_peer :: "state \<Rightarrow> peer \<Rightarrow> bool" where
  "is_current_peer s peer =
     (case currentPeer s of None \<Rightarrow> False | Some q \<Rightarrow> peer_ref q = peer_ref peer)"

definition on_peerclose :: "peer \<Rightarrow> state \<Rightarrow> state" where
  "on_peerclose peer s =
     (let s1 = appendLog (peer_line ''Peer disconnected: id='' peer) s;
          s2 = setStatus [T ''Peer disconnected. You may reconnect or wait for peer.''] False s1
      in if is_current_peer s2 peer
         then s2\<lparr>currentPeer := None, isVersionNegotiated := False, isCompatible := JBool False,
                 currentModelInfo := None\<rparr>
         else s2)"

subsection \<open>\<^verbatim>\<open>handleIncoming\<close> (lines 400 to 522)\<close>

definition handle_hello :: "jsval \<Rightarrow> state \<Rightarrow> outcome" where
  "handle_hello msg s =
     log_line [T ''Received hello: impl='', V (js_nullish (field msg ''impl'') (JStr [])),
               T '' version='', V (js_nullish (field msg ''version'') (JStr []))] s"

text \<open>
  The request after a compatible acknowledgement has its own \<^verbatim>\<open>try\<close>, and neither
  its log line nor its handler interpolates anything.
\<close>

definition request_model_info :: "transport \<Rightarrow> state \<Rightarrow> state" where
  "request_model_info tx s =
     (case currentPeer s of
        None \<Rightarrow> s
      | Some peer \<Rightarrow>
          if p2pcf s then
            (case send tx peer (JSON_stringify GetModel) s of
               Some s1 \<Rightarrow> appendLog [T ''Requested model info from server''] s1
             | None \<Rightarrow> logError ''Failed to request model info'' s)
          else s)"

text \<open>
  The two flags are assigned first. The log line with \<^verbatim>\<open>msg.protocolVersion\<close> is
  evaluated before the status update and the request, outside the inner \<^verbatim>\<open>try\<close>.
\<close>

definition handle_version_ack :: "transport \<Rightarrow> jsval \<Rightarrow> state \<Rightarrow> outcome" where
  "handle_version_ack tx msg s =
     (let s1 = s\<lparr>isVersionNegotiated := True, isCompatible := field msg ''compatible''\<rparr>
      in if truthy (field msg ''compatible'') then
           and_then
             (log_line [T ''Version negotiation successful: server protocol='',
                        V (field msg ''protocolVersion'')] s1)
             (\<lambda>s2. Returned
                (request_model_info tx
                  (setStatus [T ''Connected and ready. Protocol version compatible.''] False s2)))
         else
           and_then
             (log_line [T ''Version negotiation failed: '',
                        V (js_or (field msg ''reason'') (JStr ''incompatible versions''))] s1)
             (\<lambda>s2. status_line
                [T ''Protocol version incompatible: '',
                 V (js_or (field msg ''reason'') (JStr ''server version mismatch''))] True s2))"

definition model_status_line :: "jsval \<Rightarrow> line" where
  "model_status_line msg =
     [T ''Model: '', V (field msg ''displayName''), T '' ('',
      T (if truthy (field msg ''installed'') then ''installed'' else ''not installed''), T '')'']"

definition handle_model_info :: "jsval \<Rightarrow> state \<Rightarrow> outcome" where
  "handle_model_info msg s =
     and_then
       (log_line [T ''Received model info: '', V (field msg ''displayName''),
                  T '' (id='', V (field msg ''id''), T '', installed='',
                  V (field msg ''installed''), T '')'']
          (s\<lparr>currentModelInfo :=
               Some \<lparr>mi_id = field msg ''id'', mi_displayName = field msg ''displayName'',
                     mi_installed = field msg ''installed''\<rparr>\<rparr>))
       (\<lambda>s2. if line_printable (model_status_line msg)
              then Returned (s2\<lparr>modelStatus := model_status_line msg\<rparr>)
              else Threw s2)"

text \<open>The id and the buffers are assigned before the log line is evaluated.\<close>

definition handle_start :: "jsval \<Rightarrow> state \<Rightarrow> outcome" where
  "handle_start msg s =
     (if \<not> truthy (field msg ''id'')
      then Returned (appendLog [T ''Received start without id (ignored)''] s)
      else
        and_then
          (log_line [T ''Received start for id='', V (field msg ''id'')]
             (s\<lparr>currentPromptId := field msg ''id'', currentBuffer := [],
                 currentReasoningBuffer := []\<rparr>))
          (\<lambda>s2. Returned (setReasoning [] (setResult [] s2))))"

definition mismatch_line :: "string \<Rightarrow> jsval \<Rightarrow> state \<Rightarrow> line" where
  "mismatch_line what msg s =
     [T what, V (field msg ''id''), T '' (current='', V (currentPromptId s), T '')'']"

definition id_mismatch :: "jsval \<Rightarrow> state \<Rightarrow> bool" where
  "id_mismatch msg s =
     (\<not> truthy (field msg ''id'') \<or> \<not> strict_eq (field msg ''id'') (currentPromptId s))"

definition handle_token :: "jsval \<Rightarrow> state \<Rightarrow> outcome" where
  "handle_token msg s =
     (if id_mismatch msg s
      then log_line (mismatch_line ''Received token for unknown/mismatched id='' msg s) s
      else
        (case field msg ''tok'' of
           JStr tok \<Rightarrow>
             (let s1 = s\<lparr>currentBuffer := currentBuffer s @ tok\<rparr>
              in Returned (setResult (currentBuffer s1) s1))
         | _ \<Rightarrow> Returned s))"

definition handle_reasoning_token :: "jsval \<Rightarrow> state \<Rightarrow> outcome" where
  "handle_reasoning_token msg s =
     (if id_mismatch msg s
      then log_line (mismatch_line ''Received reasoning_token for unknown/mismatched id='' msg s) s
      else
        (case field msg ''tok'' of
           JStr tok \<Rightarrow>
             (let s1 = s\<lparr>currentReasoningBuffer := currentReasoningBuffer s @ tok\<rparr>
              in Returned (setReasoning (currentReasoningBuffer s1) s1))
         | _ \<Rightarrow> Returned s))"

definition handle_end :: "jsval \<Rightarrow> state \<Rightarrow> outcome" where
  "handle_end msg s =
     (if id_mismatch msg s
      then log_line (mismatch_line ''Received end for unknown/mismatched id='' msg s) s
      else
        and_then (log_line [T ''Received end for id='', V (field msg ''id'')] s)
          (\<lambda>s2. Returned
             ((setStatus [T ''Completion finished successfully.''] False s2)
              \<lparr>currentPromptId := JNull\<rparr>)))"

text \<open>
  The \<^verbatim>\<open>error\<close> case: the condition only selects one of two log lines; the status
  update and the assignment \<^verbatim>\<open>currentPromptId = null\<close> follow the \<^verbatim>\<open>if\<close> statement
  and run on both branches.
\<close>

definition error_log_line :: "jsval \<Rightarrow> state \<Rightarrow> line" where
  "error_log_line msg s =
     (if \<not> truthy (field msg ''id'') \<or>
         (truthy (currentPromptId s) \<and> \<not> strict_eq (field msg ''id'') (currentPromptId s))
      then [T ''Received error for id='', V (field msg ''id''), T '' (current='',
            V (js_or (currentPromptId s) (JStr ''n/a'')), T '')'']
      else [T ''Received error for id='', V (field msg ''id''), T '': '',
            V (js_or (field msg ''message'') (JStr ''Unknown error''))])"

definition handle_error :: "jsval \<Rightarrow> state \<Rightarrow> outcome" where
  "handle_error msg s =
     and_then (log_line (error_log_line msg s) s)
       (\<lambda>s1. and_then
          (status_line [T ''Error from server: '',
                        V (js_or (field msg ''message'') (JStr ''Unknown error''))] True s1)
          (\<lambda>s2. Returned (s2\<lparr>currentPromptId := JNull\<rparr>)))"

text \<open>The double quote character, which some log lines contain.\<close>

definition dquote :: string where
  "dquote = [CHR 0x22]"

definition handle_unknown :: "jsval \<Rightarrow> state \<Rightarrow> outcome" where
  "handle_unknown msg s =
     log_line [T (''Ignoring unknown message type '' @ dquote), V (field msg ''t''), T dquote] s"

text \<open>The \<^verbatim>\<open>switch (msg.t)\<close>; its cases are compared with \<^verbatim>\<open>===\<close>, in this order.\<close>

definition handleIncoming :: "transport \<Rightarrow> jsval \<Rightarrow> state \<Rightarrow> outcome" where
  "handleIncoming tx msg s =
     (let t = field msg ''t'' in
      if t = JStr ''hello'' then handle_hello msg s
      else if t = JStr ''version_ack'' then handle_version_ack tx msg s
      else if t = JStr ''model_info'' then handle_model_info msg s
      else if t = JStr ''start'' then handle_start msg s
      else if t = JStr ''token'' then handle_token msg s
      else if t = JStr ''reasoning_token'' then handle_reasoning_token msg s
      else if t = JStr ''end'' then handle_end msg s
      else if t = JStr ''error'' then handle_error msg s
      else handle_unknown msg s)"

subsection \<open>The \<^verbatim>\<open>msg\<close> handler (\<^verbatim>\<open>createClient\<close>, lines 352 to 391)\<close>

text \<open>
  What the transport can deliver: a string, an \<^verbatim>\<open>ArrayBuffer\<close> with its bytes, a
  byte-array view (\<^verbatim>\<open>ArrayBuffer.isView\<close>), or anything else with its \<^verbatim>\<open>typeof\<close>.
  A view on an \<^verbatim>\<open>ArrayBuffer\<close> is given by the bytes of that whole buffer, its
  \<^verbatim>\<open>byteOffset\<close> and its \<^verbatim>\<open>byteLength\<close>; the bytes of the view itself are
  \<open>view_bytes\<close>. A view on another kind of buffer is given by its own bytes, which
  \<^verbatim>\<open>new Uint8Array(data)\<close> copies.
\<close>

type_synonym bytes = "8 word list"

datatype payload =
    PString string
  | PArrayBuffer bytes
  | PViewOnArrayBuffer bytes nat nat
  | PViewOther bytes
  | POther string

definition view_bytes :: "bytes \<Rightarrow> nat \<Rightarrow> nat \<Rightarrow> bytes" where
  "view_bytes buffer byteOffset byteLength = take byteLength (drop byteOffset buffer)"

fun js_typeof :: "payload \<Rightarrow> string" where
  "js_typeof (PString x) = ''string''"
| "js_typeof (PArrayBuffer b) = ''object''"
| "js_typeof (PViewOnArrayBuffer b off len) = ''object''"
| "js_typeof (PViewOther b) = ''object''"
| "js_typeof (POther ty) = ty"

text \<open>
  \<^verbatim>\<open>TextDecoder.decode\<close> and \<^verbatim>\<open>JSON.parse\<close> belong to the platform, not to this
  program; they are parameters. \<open>decode\<close> never throws (the decoder is not
  created as fatal); \<open>parse\<close> returns \<open>None\<close> where \<^verbatim>\<open>JSON.parse\<close> throws.
\<close>

type_synonym decoder = "bytes \<Rightarrow> string"

type_synonym parser = "string \<Rightarrow> jsval option"

text \<open>
  The conditional expression that computes \<^verbatim>\<open>asString\<close>; \<open>None\<close> is \<^verbatim>\<open>null\<close>. For
  a view on an \<^verbatim>\<open>ArrayBuffer\<close> line 363 reads \<^verbatim>\<open>new Uint8Array(data.buffer)\<close>: the
  whole buffer, whatever the offset and the length of the view.
\<close>

fun asString :: "decoder \<Rightarrow> payload \<Rightarrow> string option" where
  "asString decode (PString x) = Some x"
| "asString decode (PArrayBuffer b) = Some (decode b)"
| "asString decode (PViewOnArrayBuffer b off len) = Some (decode b)"
| "asString decode (PViewOther b) = Some (decode b)"
| "asString decode (POther ty) = None"

definition unsupported_payload :: "payload \<Rightarrow> state \<Rightarrow> state" where
  "unsupported_payload data s =
     appendLog [T ''Received unsupported payload type: '', T (js_typeof data)] s"

definition non_json :: "string \<Rightarrow> state \<Rightarrow> state" where
  "non_json text s = appendLog [T ''Non-JSON message from peer: '', T (take 256 text)] s"

definition missing_t :: "string \<Rightarrow> state \<Rightarrow> state" where
  "missing_t text s =
     appendLog [T (''Invalid JSON message missing '' @ dquote @ ''t'' @ dquote @ '': ''),
                T (take 256 text)] s"

text \<open>
  The outer \<^verbatim>\<open>catch\<close> (lines 387 to 390) around the call of \<^verbatim>\<open>handleIncoming\<close>: a
  console error and a log line with the message of the \<^verbatim>\<open>TypeError\<close>, a text that
  the platform chooses.
\<close>

definition type_error_message :: string where
  "type_error_message = ''Cannot convert object to primitive value''"

definition caught :: "state \<Rightarrow> state" where
  "caught s =
     appendLog [T ''Error handling incoming message: '', T type_error_message]
       (logError ''Error handling incoming P2PCF msg'' s)"

definition deliver :: "transport \<Rightarrow> jsval \<Rightarrow> state \<Rightarrow> state" where
  "deliver tx msg s = (case handleIncoming tx msg s of Returned s1 \<Rightarrow> s1 | Threw s1 \<Rightarrow> caught s1)"

text \<open>
  \<^verbatim>\<open>if (!asString)\<close> is true for \<^verbatim>\<open>null\<close> and for the empty string. The lines logged
  here interpolate strings only.
\<close>

definition on_msg :: "decoder \<Rightarrow> parser \<Rightarrow> transport \<Rightarrow> payload \<Rightarrow> state \<Rightarrow> state" where
  "on_msg decode parse tx data s =
     (case asString decode data of
        None \<Rightarrow> unsupported_payload data s
      | Some text \<Rightarrow>
          if text = [] then unsupported_payload data s
          else
            (case parse text of
               None \<Rightarrow> non_json text s
             | Some msg \<Rightarrow>
                 if \<not> truthy msg \<or> \<not> is_string (field msg ''t'') then missing_t text s
                 else deliver tx msg s))"

subsection \<open>\<^verbatim>\<open>sendPrompt\<close> (lines 524 to 602) and \<^verbatim>\<open>getModelInfo\<close> (lines 604 to 626)\<close>

text \<open>
  The value of the \<^verbatim>\<open>max_tokens\<close> element. \<^verbatim>\<open>setupUI\<close> creates it with
  \<^verbatim>\<open>type = 'number'\<close> (line 166), and the value of such an element is the empty
  string or the text of a finite number; nothing else can be read from it.
  \<^verbatim>\<open>Number\<close> converts the empty string to zero and the text of a number to that
  number.
\<close>

datatype number_value = EmptyValue | NumberText rat

fun Number_of :: "number_value \<Rightarrow> jsnum" where
  "Number_of EmptyValue = Fin 0"
| "Number_of (NumberText q) = Fin q"

text \<open>
  The three input elements: the \<^verbatim>\<open>value\<close> of each, \<open>None\<close> when
  \<^verbatim>\<open>getElementById\<close> returns \<^verbatim>\<open>null\<close>.
\<close>

record dom_inputs =
  systemPromptEl :: "string option"
  userPromptEl :: "string option"
  maxTokensEl :: "number_value option"

text \<open>
  Lines 558 to 584, which build the request. \<open>trim\<close> is \<^verbatim>\<open>String.prototype.trim\<close>
  and \<open>ts36\<close> is the text of \<^verbatim>\<open>Date.now().toString(36)\<close>; both belong to the
  platform and are parameters. \<open>None\<close> is the early return on an empty user
  message. \<^verbatim>\<open>Number(v) || undefined\<close> is \<open>maxTokens\<close>, and
  \<^verbatim>\<open>maxTokens && maxTokens > 0\<close> guards the assignment of \<^verbatim>\<open>msg.max_tokens\<close>.
\<close>

type_synonym trimmer = "string \<Rightarrow> string"

definition maxTokens_of :: "number_value \<Rightarrow> jsnum option" where
  "maxTokens_of v = (if num_truthy (Number_of v) then Some (Number_of v) else None)"

definition build_messages :: "string \<Rightarrow> string \<Rightarrow> message list" where
  "build_messages systemPrompt userPrompt =
     (if systemPrompt \<noteq> [] then [\<lparr>role = System, content = systemPrompt\<rparr>] else [])
     @ [\<lparr>role = User, content = userPrompt\<rparr>]"

definition build_prompt ::
  "trimmer \<Rightarrow> string \<Rightarrow> string \<Rightarrow> number_value \<Rightarrow> string \<Rightarrow> outgoing option" where
  "build_prompt trim systemValue userValue maxTokensValue ts36 =
     (let systemPrompt = trim systemValue;
          userPrompt = trim userValue;
          maxTokens = maxTokens_of maxTokensValue
      in if userPrompt = [] then None
         else Some (Prompt (''test-'' @ ts36) (build_messages systemPrompt userPrompt)
                      (case maxTokens of
                         None \<Rightarrow> None
                       | Some n \<Rightarrow> if num_gt_zero n then Some n else None)))"

text \<open>The log line of a sent prompt interpolates a string and numbers only.\<close>

definition sent_prompt_line :: "outgoing \<Rightarrow> line" where
  "sent_prompt_line msg =
     [T ''Sent prompt id='', V (JStr (prompt_id msg)),
      T '', messages='', V (JNum (Fin (of_nat (length (messages msg))))),
      T '', max_tokens='',
      V (case max_tokens msg of None \<Rightarrow> JStr ''default'' | Some n \<Rightarrow> JNum n)]"

definition transmit_prompt :: "transport \<Rightarrow> peer \<Rightarrow> outgoing \<Rightarrow> state \<Rightarrow> state" where
  "transmit_prompt tx peer msg s =
     (case send tx peer (JSON_stringify msg) s of
        Some s1 \<Rightarrow>
          setReasoning []
            (setResult []
              ((setStatus [T ''Prompt sent. Waiting for streamed tokens...''] False
                 (appendLog (sent_prompt_line msg) s1))
               \<lparr>currentPromptId := JStr (prompt_id msg), currentBuffer := [],
                currentReasoningBuffer := []\<rparr>))
      | None \<Rightarrow>
          setStatus [T ''Failed to send prompt over P2PCF.''] True
            (logError ''Failed to send prompt over P2PCF'' s))"

definition sendPrompt ::
  "transport \<Rightarrow> trimmer \<Rightarrow> dom_inputs \<Rightarrow> string \<Rightarrow> state \<Rightarrow> state" where
  "sendPrompt tx trim inputs ts36 s =
     (case (if p2pcf s then currentPeer s else None) of
        None \<Rightarrow>
          setStatus [T ''Cannot send prompt: not connected to any peer.''] True
            (appendLog [T ''Cannot send: no connected peer''] s)
      | Some peer \<Rightarrow>
          if \<not> isVersionNegotiated s then
            setStatus [T ''Waiting for protocol version negotiation...''] True
              (appendLog [T ''Cannot send: version not negotiated yet''] s)
          else if \<not> truthy (isCompatible s) then
            setStatus [T ''Cannot send: protocol version incompatible with server''] True
              (appendLog [T ''Cannot send: protocol version incompatible''] s)
          else
            (case (systemPromptEl inputs, userPromptEl inputs, maxTokensEl inputs) of
               (Some systemValue, Some userValue, Some maxTokensValue) \<Rightarrow>
                 (case build_prompt trim systemValue userValue maxTokensValue ts36 of
                    None \<Rightarrow> setStatus [T ''Enter a user message before sending.''] True s
                  | Some msg \<Rightarrow> transmit_prompt tx peer msg s)
             | _ \<Rightarrow> appendLog [T ''Required input elements missing from DOM''] s))"

definition getModelInfo :: "transport \<Rightarrow> state \<Rightarrow> state" where
  "getModelInfo tx s =
     (case (if p2pcf s then currentPeer s else None) of
        None \<Rightarrow>
          setStatus [T ''Cannot get model info: not connected to any peer.''] True
            (appendLog [T ''Cannot get model info: no connected peer''] s)
      | Some peer \<Rightarrow>
          if \<not> isVersionNegotiated s \<or> \<not> truthy (isCompatible s) then
            setStatus [T ''Waiting for protocol version negotiation...''] True
              (appendLog [T ''Cannot get model info: version not negotiated or incompatible''] s)
          else
            (case send tx peer (JSON_stringify GetModel) s of
               Some s1 \<Rightarrow>
                 setStatus [T ''Model info request sent...''] False
                   (appendLog [T ''Requested model info from server''] s1)
             | None \<Rightarrow>
                 setStatus [T ''Failed to send model info request''] True
                   (logError ''Failed to send get_model'' s)))"

subsection \<open>Runs of incoming messages and concrete inputs\<close>

text \<open>The text carried by a \<^verbatim>\<open>token\<close> or \<^verbatim>\<open>reasoning_token\<close> message.\<close>

definition tok_text :: "jsval \<Rightarrow> string" where
  "tok_text m = (case field m ''tok'' of JStr x \<Rightarrow> x | _ \<Rightarrow> [])"

text \<open>The variables when a handler has returned or thrown.\<close>

fun state_of :: "outcome \<Rightarrow> state" where
  "state_of (Returned s) = s"
| "state_of (Threw s) = s"

text \<open>
  A run of incoming messages, in arrival order; each message is handled to its end
  (return, or throw and catch) before the next, and comes with the behaviour of the
  transport at that time.
\<close>

definition run :: "(transport \<times> jsval) list \<Rightarrow> state \<Rightarrow> state" where
  "run evs s = fold (\<lambda>(tx, m). deliver tx m) evs s"

definition is_start_for :: "string \<Rightarrow> jsval \<Rightarrow> bool" where
  "is_start_for a m = (field m ''t'' = JStr ''start'' \<and> field m ''id'' = JStr a)"

text \<open>
  The condition on \<^verbatim>\<open>currentPromptId\<close> that every handler keeps: it is \<^verbatim>\<open>null\<close> or
  truthy, so never the empty string.
\<close>

definition active_id_ok :: "state \<Rightarrow> bool" where
  "active_id_ok s = (currentPromptId s = JNull \<or> truthy (currentPromptId s))"

text \<open>Whether a serialized object has a property \<open>k\<close>.\<close>

fun has_property :: "jsval \<Rightarrow> string \<Rightarrow> bool" where
  "has_property (JObj kvs) k = (k \<in> set (map fst kvs))"
| "has_property JUndefined k = False"
| "has_property JNull k = False"
| "has_property (JBool b) k = False"
| "has_property (JNum n) k = False"
| "has_property (JStr s) k = False"
| "has_property (JArr xs) k = False"

text \<open>
  A \<^verbatim>\<open>version_ack\<close> message that reaches the request for the model info: it takes
  the branch \<^verbatim>\<open>if (msg.compatible)\<close>, and the log line before the request converts.
\<close>

definition is_compatible_ack :: "jsval \<Rightarrow> bool" where
  "is_compatible_ack m =
     (field m ''t'' = JStr ''version_ack'' \<and> truthy (field m ''compatible'') \<and>
      printable (field m ''protocolVersion''))"

text \<open>The \<^verbatim>\<open>case\<close> labels of the \<^verbatim>\<open>switch\<close> in \<^verbatim>\<open>handleIncoming\<close>.\<close>

definition known_tags :: "string list" where
  "known_tags = [''hello'', ''version_ack'', ''model_info'', ''start'', ''token'',
                 ''reasoning_token'', ''end'', ''error'']"

text \<open>
  The text that a payload stands for, in the words of the specification: a string
  is its own text, a byte buffer and a byte-array view are the decoding of their
  bytes, anything else has none. For a view these are the bytes of the view.
\<close>

fun payload_text :: "decoder \<Rightarrow> payload \<Rightarrow> string option" where
  "payload_text decode (PString x) = Some x"
| "payload_text decode (PArrayBuffer b) = Some (decode b)"
| "payload_text decode (PViewOnArrayBuffer b off len) = Some (decode (view_bytes b off len))"
| "payload_text decode (PViewOther b) = Some (decode b)"
| "payload_text decode (POther ty) = None"

text \<open>A payload that is not a view on a part of a larger \<^verbatim>\<open>ArrayBuffer\<close>.\<close>

fun spans_buffer :: "payload \<Rightarrow> bool" where
  "spans_buffer (PViewOnArrayBuffer b off len) = (view_bytes b off len = b)"
| "spans_buffer (PString x) = True"
| "spans_buffer (PArrayBuffer b) = True"
| "spans_buffer (PViewOther b) = True"
| "spans_buffer (POther ty) = True"

text \<open>
  Concrete inputs for the evaluations below: a peer, a transport that accepts every
  payload, a parsed message with tag \<open>t\<close>, and the state of a negotiated session
  with an active stream.
\<close>

definition example_peer :: peer where
  "example_peer = Peer 1 (JStr ''desktop'') JUndefined"

definition accept_all :: transport where
  "accept_all p payload = True"

definition msg_of :: "string \<Rightarrow> (string \<times> jsval) list \<Rightarrow> jsval" where
  "msg_of t kvs = JObj ((''t'', JStr t) # kvs)"

definition streaming :: "string \<Rightarrow> string \<Rightarrow> string \<Rightarrow> state" where
  "streaming i visible reasoning =
     initial\<lparr>p2pcf := True, currentPeer := Some example_peer, isVersionNegotiated := True,
             isCompatible := JBool True, currentPromptId := JStr i, currentBuffer := visible,
             currentReasoningBuffer := reasoning\<rparr>"

text \<open>
  Some values of the platform functions: \<^verbatim>\<open>trim\<close> on strings whose white space is
  that of ASCII (space, tab, line feed, vertical tab, form feed, carriage return),
  \<^verbatim>\<open>JSON.parse\<close> on three texts (every other text is taken as not parsable, among
  them the empty text, on which \<^verbatim>\<open>JSON.parse\<close> throws), and the decoder on no bytes
  and on the bytes of \<^verbatim>\<open>{}\<close>.
\<close>

definition is_ws :: "char \<Rightarrow> bool" where
  "is_ws c = (c = CHR '' '' \<or> c = CHR 0x09 \<or> c = CHR 0x0A \<or> c = CHR 0x0B \<or> c = CHR 0x0C \<or> c = CHR 0x0D)"

definition example_trim :: trimmer where
  "example_trim x = rev (dropWhile is_ws (rev (dropWhile is_ws x)))"

definition ping_text :: string where
  "ping_text = ''{'' @ dquote @ ''t'' @ dquote @ '':'' @ dquote @ ''ping'' @ dquote @ ''}''"

definition example_parse :: parser where
  "example_parse text =
     (if text = ping_text then Some (msg_of ''ping'' [])
      else if text = ''{}'' then Some (JObj [])
      else if text = ''null'' then Some JNull
      else None)"

definition example_decode :: decoder where
  "example_decode b = (if b = [] then [] else if b = [0x7B, 0x7D] then ''{}'' else ''?'')"

text \<open>
  The state after the client exists and a peer has connected, a \<^verbatim>\<open>version_ack\<close>
  message, and the three input elements with their values.
\<close>

definition connected :: state where
  "connected = on_peerconnect accept_all example_peer (initial\<lparr>p2pcf := True\<rparr>)"

definition ack :: "bool \<Rightarrow> jsval" where
  "ack c = msg_of ''version_ack'' [(''compatible'', JBool c), (''protocolVersion'', JStr ''1.0.0'')]"

definition example_inputs :: dom_inputs where
  "example_inputs = \<lparr>systemPromptEl = Some ''You are a helpful assistant.'',
                     userPromptEl = Some '' hi '', maxTokensEl = Some (NumberText 256)\<rparr>"

text \<open>
  A value that cannot be converted to text, and an acknowledgement that carries it
  as its protocol version.
\<close>

definition unprintable :: jsval where
  "unprintable = JObj [(''toString'', JNum (Fin 1))]"

definition unprintable_ack :: jsval where
  "unprintable_ack =
     msg_of ''version_ack'' [(''compatible'', JBool True), (''protocolVersion'', unprintable)]"

section \<open>Properties\<close>

lemmas effect_defs = appendLog_def setStatus_def setResult_def setReasoning_def log_def logError_def
  send_def

lemmas line_defs = log_line_def status_line_def line_printable_def

lemmas handler_defs = handle_hello_def handle_version_ack_def handle_model_info_def handle_start_def
  handle_token_def handle_reasoning_token_def handle_end_def handle_error_def handle_unknown_def
  request_model_info_def

lemma is_string_conv: "is_string v = (\<exists>x. v = JStr x)"
  by (cases v) auto

lemma and_then_log_line:
  "and_then (log_line l s) f = (if line_printable l then f (appendLog l s) else Threw s)"
  by (simp add: log_line_def)

lemma and_then_status_line:
  "and_then (status_line l e s) f = (if line_printable l then f (setStatus l e s) else Threw s)"
  by (simp add: status_line_def)

lemma state_of_log_line:
  "state_of (log_line l s) = (if line_printable l then appendLog l s else s)"
  by (simp add: log_line_def)

lemma state_of_status_line:
  "state_of (status_line l e s) = (if line_printable l then setStatus l e s else s)"
  by (simp add: status_line_def)

lemmas outcome_simps = and_then_log_line and_then_status_line state_of_log_line state_of_status_line

lemma deliver_state_of:
  "deliver tx m s = state_of (handleIncoming tx m s) \<or>
   deliver tx m s = caught (state_of (handleIncoming tx m s))"
  by (cases "handleIncoming tx m s") (simp_all add: deliver_def)

subsection \<open>An \<^verbatim>\<open>error\<close> message for another id\<close>

text \<open>
  C1. The claim: an \<^verbatim>\<open>error\<close> message whose id is non-empty and differs from the
  active id leaves the active stream as it is and is only logged. The program does
  otherwise. With \<open>A\<close> active and buffers \<open>Hel\<close> and \<open>hm\<close>, the message
  \<^verbatim>\<open>{t:"error", id:"B", message:"oom"}\<close> writes the log line of the mismatch branch
  and then, as for every \<^verbatim>\<open>error\<close> message, sets the error status and assigns
  \<^verbatim>\<open>null\<close> to \<^verbatim>\<open>currentPromptId\<close>: the stream of \<open>A\<close> is no longer active. The
  \<^verbatim>\<open>token\<close>, \<^verbatim>\<open>reasoning_token\<close> and \<^verbatim>\<open>end\<close> cases return on the same mismatch.
\<close>

theorem error_for_other_id_clears_active_id:
  "handleIncoming accept_all (msg_of ''error'' [(''id'', JStr ''B''), (''message'', JStr ''oom'')])
      (streaming ''A'' ''Hel'' ''hm'')
   = Returned
      ((streaming ''A'' ''Hel'' ''hm'')
       \<lparr>currentPromptId := JNull,
        logView := [ [T ''Received error for id='', V (JStr ''B''), T '' (current='',
                     V (JStr ''A''), T '')''] ],
        status := ([T ''Error from server: '', V (JStr ''oom'')], True)\<rparr>)"
  by (simp add: handleIncoming_def handle_error_def error_log_line_def msg_of_def streaming_def
      initial_def js_or_def effect_defs line_defs)

subsection \<open>Peer disconnect\<close>

text \<open>
  C2, as the program has it. The \<^verbatim>\<open>peerclose\<close> handler never touches the stream
  variables: the active id and both buffers are the same after it, for every peer
  and state. When the closing peer is the current peer, the peer, the two
  negotiation flags and the cached model info are reset; when it is another peer,
  these keep their values too.
\<close>

theorem peerclose_resets_session_not_stream:
  "currentPromptId (on_peerclose peer s) = currentPromptId s \<and>
   currentBuffer (on_peerclose peer s) = currentBuffer s \<and>
   currentReasoningBuffer (on_peerclose peer s) = currentReasoningBuffer s \<and>
   (is_current_peer s peer \<longrightarrow>
      currentPeer (on_peerclose peer s) = None \<and>
      \<not> isVersionNegotiated (on_peerclose peer s) \<and>
      isCompatible (on_peerclose peer s) = JBool False \<and>
      currentModelInfo (on_peerclose peer s) = None) \<and>
   (\<not> is_current_peer s peer \<longrightarrow>
      currentPeer (on_peerclose peer s) = currentPeer s \<and>
      isVersionNegotiated (on_peerclose peer s) = isVersionNegotiated s \<and>
      isCompatible (on_peerclose peer s) = isCompatible s \<and>
      currentModelInfo (on_peerclose peer s) = currentModelInfo s)"
  by (simp add: on_peerclose_def is_current_peer_def effect_defs Let_def)

theorem peerclose_resets_session_not_stream_witness:
  "is_current_peer (streaming ''x1'' ''Hel'' ''hm'') example_peer \<and>
   \<not> is_current_peer (streaming ''x1'' ''Hel'' ''hm'') (Peer 2 JNull JNull) \<and>
   currentPeer (on_peerclose example_peer (streaming ''x1'' ''Hel'' ''hm'')) = None \<and>
   currentModelInfo (on_peerclose example_peer (streaming ''x1'' ''Hel'' ''hm'')) = None \<and>
   currentBuffer (on_peerclose example_peer (streaming ''x1'' ''Hel'' ''hm'')) = ''Hel'' \<and>
   currentPeer (on_peerclose (Peer 2 JNull JNull) (streaming ''x1'' ''Hel'' ''hm''))
     = Some example_peer"
  using peerclose_resets_session_not_stream [of example_peer "streaming ''x1'' ''Hel'' ''hm''"]
    peerclose_resets_session_not_stream [of "Peer 2 JNull JNull" "streaming ''x1'' ''Hel'' ''hm''"]
  by (simp add: is_current_peer_def streaming_def example_peer_def initial_def)

text \<open>
  The claim as stated fails: the disconnect of the current peer during the stream
  \<open>x1\<close> leaves the active id and the contents of both buffers in place.
\<close>

theorem peerclose_stream_state_survives:
  "currentPromptId (on_peerclose example_peer (streaming ''x1'' ''Hel'' ''hm'')) = JStr ''x1'' \<and>
   currentBuffer (on_peerclose example_peer (streaming ''x1'' ''Hel'' ''hm'')) = ''Hel'' \<and>
   currentReasoningBuffer (on_peerclose example_peer (streaming ''x1'' ''Hel'' ''hm'')) = ''hm''"
  by (simp add: on_peerclose_def is_current_peer_def effect_defs Let_def streaming_def initial_def)

subsection \<open>Reassembly of the two channels\<close>

lemma token_step:
  assumes "currentPromptId s = JStr a" "a \<noteq> []" "field m ''t'' = JStr ''token''"
    "field m ''id'' = JStr a" "is_string (field m ''tok'')"
  shows "handleIncoming tx m s = Returned
     (s\<lparr>currentBuffer := currentBuffer s @ tok_text m, resultView := currentBuffer s @ tok_text m\<rparr>)"
  using assms
  by (auto simp: handleIncoming_def handle_token_def id_mismatch_def tok_text_def is_string_conv
      effect_defs Let_def)

lemma reasoning_token_step:
  assumes "currentPromptId s = JStr a" "a \<noteq> []" "field m ''t'' = JStr ''reasoning_token''"
    "field m ''id'' = JStr a" "is_string (field m ''tok'')"
  shows "handleIncoming tx m s = Returned
     (s\<lparr>currentReasoningBuffer := currentReasoningBuffer s @ tok_text m,
        reasoningView := currentReasoningBuffer s @ tok_text m\<rparr>)"
  using assms
  by (auto simp: handleIncoming_def handle_reasoning_token_def id_mismatch_def tok_text_def
      is_string_conv effect_defs Let_def)

lemma tokens_append:
  assumes "currentPromptId s = JStr a" and "a \<noteq> []"
    and "\<forall>m \<in> set msgs. field m ''t'' = JStr ''token'' \<and> field m ''id'' = JStr a \<and>
                         is_string (field m ''tok'')"
  shows "currentBuffer (fold (deliver tx) msgs s) = currentBuffer s @ concat (map tok_text msgs) \<and>
         currentPromptId (fold (deliver tx) msgs s) = JStr a \<and>
         currentReasoningBuffer (fold (deliver tx) msgs s) = currentReasoningBuffer s"
  using assms
proof (induction msgs arbitrary: s)
  case Nil
  then show ?case by simp
next
  case (Cons m msgs)
  let ?s1 = "deliver tx m s"
  have "handleIncoming tx m s = Returned
      (s\<lparr>currentBuffer := currentBuffer s @ tok_text m, resultView := currentBuffer s @ tok_text m\<rparr>)"
    using Cons.prems by (intro token_step) auto
  then have step: "?s1 = s\<lparr>currentBuffer := currentBuffer s @ tok_text m,
                             resultView := currentBuffer s @ tok_text m\<rparr>"
    by (simp add: deliver_def)
  have "currentPromptId ?s1 = JStr a" using Cons.prems(1) by (simp add: step)
  from Cons.IH [OF this Cons.prems(2)] Cons.prems(3)
  show ?case by (simp add: step)
qed

lemma reasoning_tokens_append:
  assumes "currentPromptId s = JStr a" and "a \<noteq> []"
    and "\<forall>m \<in> set msgs. field m ''t'' = JStr ''reasoning_token'' \<and> field m ''id'' = JStr a \<and>
                         is_string (field m ''tok'')"
  shows "currentReasoningBuffer (fold (deliver tx) msgs s)
           = currentReasoningBuffer s @ concat (map tok_text msgs) \<and>
         currentPromptId (fold (deliver tx) msgs s) = JStr a \<and>
         currentBuffer (fold (deliver tx) msgs s) = currentBuffer s"
  using assms
proof (induction msgs arbitrary: s)
  case Nil
  then show ?case by simp
next
  case (Cons m msgs)
  let ?s1 = "deliver tx m s"
  have "handleIncoming tx m s = Returned
      (s\<lparr>currentReasoningBuffer := currentReasoningBuffer s @ tok_text m,
         reasoningView := currentReasoningBuffer s @ tok_text m\<rparr>)"
    using Cons.prems by (intro reasoning_token_step) auto
  then have step: "?s1 = s\<lparr>currentReasoningBuffer := currentReasoningBuffer s @ tok_text m,
                             reasoningView := currentReasoningBuffer s @ tok_text m\<rparr>"
    by (simp add: deliver_def)
  have "currentPromptId ?s1 = JStr a" using Cons.prems(1) by (simp add: step)
  from Cons.IH [OF this Cons.prems(2)] Cons.prems(3)
  show ?case by (simp add: step)
qed

text \<open>
  C4. While \<open>a\<close> is the active id, a run of \<^verbatim>\<open>token\<close> messages that all carry \<open>a\<close>
  and a string \<^verbatim>\<open>tok\<close> appends their texts to the visible buffer in arrival order:
  the buffer afterwards is the buffer before (empty after a \<^verbatim>\<open>start\<close> or a sent
  prompt) followed by the concatenation of the texts, each once. The active id and
  the reasoning buffer stay as they are. An active id is never the empty string
  (\<open>active_id_ok\<close> holds initially and every handler keeps it, see the last
  subsection), which is the second assumption.
\<close>

theorem tokens_concatenate_in_arrival_order:
  assumes "currentPromptId s = JStr a" and "a \<noteq> []"
    and "\<forall>m \<in> set msgs. field m ''t'' = JStr ''token'' \<and> field m ''id'' = JStr a \<and>
                         is_string (field m ''tok'')"
  shows "currentBuffer (fold (deliver tx) msgs s) = currentBuffer s @ concat (map tok_text msgs) \<and>
         currentPromptId (fold (deliver tx) msgs s) = JStr a \<and>
         currentReasoningBuffer (fold (deliver tx) msgs s) = currentReasoningBuffer s"
  using assms by (rule tokens_append)

theorem tokens_concatenate_in_arrival_order_witness:
  "currentPromptId (streaming ''x1'' [] []) = JStr ''x1'' \<and> ''x1'' \<noteq> [] \<and>
   field (msg_of ''token'' [(''id'', JStr ''x1''), (''tok'', JStr ''Hel'')]) ''t'' = JStr ''token'' \<and>
   field (msg_of ''token'' [(''id'', JStr ''x1''), (''tok'', JStr ''Hel'')]) ''id'' = JStr ''x1'' \<and>
   is_string (field (msg_of ''token'' [(''id'', JStr ''x1''), (''tok'', JStr ''Hel'')]) ''tok'') \<and>
   field (msg_of ''token'' [(''id'', JStr ''x1''), (''tok'', JStr ''lo'')]) ''t'' = JStr ''token'' \<and>
   field (msg_of ''token'' [(''id'', JStr ''x1''), (''tok'', JStr ''lo'')]) ''id'' = JStr ''x1'' \<and>
   is_string (field (msg_of ''token'' [(''id'', JStr ''x1''), (''tok'', JStr ''lo'')]) ''tok'') \<and>
   currentBuffer (fold (deliver accept_all)
      [msg_of ''token'' [(''id'', JStr ''x1''), (''tok'', JStr ''Hel'')],
       msg_of ''token'' [(''id'', JStr ''x1''), (''tok'', JStr ''lo'')]] (streaming ''x1'' [] []))
     = ''Hello''"
  using tokens_concatenate_in_arrival_order [of "streaming ''x1'' [] []" "''x1''"
      "[msg_of ''token'' [(''id'', JStr ''x1''), (''tok'', JStr ''Hel'')],
        msg_of ''token'' [(''id'', JStr ''x1''), (''tok'', JStr ''lo'')]]" accept_all]
  by (simp add: streaming_def initial_def msg_of_def tok_text_def)

subsection \<open>Tokens without text\<close>

text \<open>
  C10. A \<^verbatim>\<open>token\<close> or \<^verbatim>\<open>reasoning_token\<close> message whose id is the active id and
  whose \<^verbatim>\<open>tok\<close> is absent or not a string changes nothing at all and throws
  nothing: the handler returns, and the variables, the log, the console, the status
  and the views are the same afterwards.
\<close>

theorem token_without_text_is_dropped:
  assumes "field msg ''t'' = JStr ''token'' \<or> field msg ''t'' = JStr ''reasoning_token''"
    and "truthy (field msg ''id'')"
    and "strict_eq (field msg ''id'') (currentPromptId s)"
    and "\<not> is_string (field msg ''tok'')"
  shows "handleIncoming tx msg s = Returned s"
  using assms
  by (cases "field msg ''tok''")
     (auto simp: handleIncoming_def handle_token_def handle_reasoning_token_def id_mismatch_def)

theorem token_without_text_is_dropped_witness:
  "field (msg_of ''token'' [(''id'', JStr ''x1''), (''tok'', JNum (Fin 7))]) ''t'' = JStr ''token'' \<and>
   truthy (field (msg_of ''token'' [(''id'', JStr ''x1''), (''tok'', JNum (Fin 7))]) ''id'') \<and>
   strict_eq (field (msg_of ''token'' [(''id'', JStr ''x1''), (''tok'', JNum (Fin 7))]) ''id'')
     (currentPromptId (streaming ''x1'' ''Hel'' [])) \<and>
   \<not> is_string (field (msg_of ''token'' [(''id'', JStr ''x1''), (''tok'', JNum (Fin 7))]) ''tok'') \<and>
   handleIncoming accept_all (msg_of ''token'' [(''id'', JStr ''x1''), (''tok'', JNum (Fin 7))])
     (streaming ''x1'' ''Hel'' []) = Returned (streaming ''x1'' ''Hel'' [])"
  using token_without_text_is_dropped
      [of "msg_of ''token'' [(''id'', JStr ''x1''), (''tok'', JNum (Fin 7))]"
          "streaming ''x1'' ''Hel'' []" accept_all]
  by (simp add: streaming_def initial_def msg_of_def)

subsection \<open>What one incoming message can change\<close>

lemma caught_fields:
  "currentPromptId (caught s) = currentPromptId s"
  "currentBuffer (caught s) = currentBuffer s"
  "currentReasoningBuffer (caught s) = currentReasoningBuffer s"
  "p2pcf (caught s) = p2pcf s"
  "currentPeer (caught s) = currentPeer s"
  "sent (caught s) = sent s"
  "isVersionNegotiated (caught s) = isVersionNegotiated s"
  "isCompatible (caught s) = isCompatible s"
  by (simp_all add: caught_def effect_defs)

lemma handleIncoming_active_id:
  "currentPromptId (state_of (handleIncoming tx m s)) = currentPromptId s \<or>
   currentPromptId (state_of (handleIncoming tx m s)) = JNull \<or>
   (field m ''t'' = JStr ''start'' \<and>
    currentPromptId (state_of (handleIncoming tx m s)) = field m ''id'')"
  by (auto simp: handleIncoming_def handler_defs outcome_simps effect_defs Let_def
      split: option.splits jsval.splits)

lemma deliver_active_id:
  "currentPromptId (deliver tx m s) = currentPromptId s \<or>
   currentPromptId (deliver tx m s) = JNull \<or>
   (field m ''t'' = JStr ''start'' \<and> currentPromptId (deliver tx m s) = field m ''id'')"
  using handleIncoming_active_id [of tx m s] deliver_state_of [of tx m s]
  by (auto simp: caught_fields)

lemma handleIncoming_client: "p2pcf (state_of (handleIncoming tx m s)) = p2pcf s"
  by (auto simp: handleIncoming_def handler_defs outcome_simps effect_defs Let_def
      split: option.splits jsval.splits)

lemma handleIncoming_peer: "currentPeer (state_of (handleIncoming tx m s)) = currentPeer s"
  by (auto simp: handleIncoming_def handler_defs outcome_simps effect_defs Let_def
      split: option.splits jsval.splits)

lemma deliver_client: "p2pcf (deliver tx m s) = p2pcf s"
  using handleIncoming_client [of tx m s] deliver_state_of [of tx m s]
  by (auto simp: caught_fields)

lemma deliver_peer: "currentPeer (deliver tx m s) = currentPeer s"
  using handleIncoming_peer [of tx m s] deliver_state_of [of tx m s]
  by (auto simp: caught_fields)

subsection \<open>A second \<^verbatim>\<open>start\<close> supersedes the first\<close>

lemma not_active_step:
  assumes "currentPromptId s \<noteq> JStr a" "\<not> is_start_for a m"
  shows "currentPromptId (deliver tx m s) \<noteq> JStr a"
  using assms deliver_active_id [of tx m s] by (auto simp: is_start_for_def)

lemma not_active_run:
  assumes "currentPromptId s \<noteq> JStr a" "\<forall>(tx, m) \<in> set evs. \<not> is_start_for a m"
  shows "currentPromptId (run evs s) \<noteq> JStr a"
  using assms
proof (induction evs arbitrary: s)
  case Nil
  then show ?case by (simp add: run_def)
next
  case (Cons ev evs)
  obtain tx m where ev: "ev = (tx, m)" by (cases ev)
  have "currentPromptId (deliver tx m s) \<noteq> JStr a"
    using Cons.prems ev by (intro not_active_step) auto
  from Cons.IH [OF this] Cons.prems(2) ev show ?case by (simp add: run_def)
qed

lemma start_step:
  assumes "field m ''t'' = JStr ''start''" "field m ''id'' = JStr b" "b \<noteq> []"
  shows "handleIncoming tx m s = Returned
           (setReasoning [] (setResult []
              (appendLog [T ''Received start for id='', V (JStr b)]
                 (s\<lparr>currentPromptId := JStr b, currentBuffer := [],
                    currentReasoningBuffer := []\<rparr>))))"
  using assms by (simp add: handleIncoming_def handle_start_def line_defs)

lemma stale_token_step:
  assumes "currentPromptId s \<noteq> JStr a" "field k ''id'' = JStr a"
  shows "field k ''t'' = JStr ''token'' \<Longrightarrow> handleIncoming tx k s =
           log_line (mismatch_line ''Received token for unknown/mismatched id='' k s) s"
    and "field k ''t'' = JStr ''reasoning_token'' \<Longrightarrow> handleIncoming tx k s =
           log_line (mismatch_line ''Received reasoning_token for unknown/mismatched id='' k s) s"
  using assms
  by (auto simp: handleIncoming_def handle_token_def handle_reasoning_token_def id_mismatch_def)

lemma deliver_log_line:
  assumes "handleIncoming tx k s = log_line l s"
  shows "\<exists>ls c. deliver tx k s = s\<lparr>logView := ls, console := c\<rparr>"
proof (cases "line_printable l")
  case True
  then have "deliver tx k s = s\<lparr>logView := logView s @ [l], console := console s\<rparr>"
    using assms by (simp add: deliver_def log_line_def appendLog_def)
  then show ?thesis by blast
next
  case False
  then have "deliver tx k s =
      s\<lparr>logView := logView s @ [ [T ''Error handling incoming message: '', T type_error_message] ],
        console := console s @ [''Error handling incoming P2PCF msg'']\<rparr>"
    using assms by (simp add: deliver_def log_line_def caught_def appendLog_def logError_def)
  then show ?thesis by blast
qed

text \<open>
  C5. From any state (in particular one where \<open>a\<close> is active with buffered text), a
  \<^verbatim>\<open>start\<close> message with a non-empty id \<open>b\<close> different from \<open>a\<close> returns with \<open>b\<close>
  as the active id and both buffers empty. After that, whatever messages arrive in
  between short of a new \<^verbatim>\<open>start\<close> for \<open>a\<close>, a \<^verbatim>\<open>token\<close> or \<^verbatim>\<open>reasoning_token\<close>
  message tagged \<open>a\<close> takes the mismatch branch: \<^verbatim>\<open>handleIncoming\<close> does nothing but
  evaluate and append the mismatch line, or throws while evaluating it when the
  active id of that moment cannot be converted to text. Either way every variable
  and both views keep their values; only the log and the console grow.
\<close>

theorem second_start_supersedes_first:
  assumes "a \<noteq> b" and "b \<noteq> []"
    and "field m ''t'' = JStr ''start''" and "field m ''id'' = JStr b"
    and "\<forall>(tx', m') \<in> set later. \<not> is_start_for a m'"
    and "field k ''id'' = JStr a"
  shows "currentPromptId (deliver tx m s) = JStr b \<and>
         currentBuffer (deliver tx m s) = [] \<and>
         currentReasoningBuffer (deliver tx m s) = [] \<and>
         (field k ''t'' = JStr ''token'' \<longrightarrow>
            handleIncoming tx2 k (run later (deliver tx m s)) =
              log_line (mismatch_line ''Received token for unknown/mismatched id='' k
                           (run later (deliver tx m s)))
                (run later (deliver tx m s))) \<and>
         (field k ''t'' = JStr ''reasoning_token'' \<longrightarrow>
            handleIncoming tx2 k (run later (deliver tx m s)) =
              log_line (mismatch_line ''Received reasoning_token for unknown/mismatched id='' k
                           (run later (deliver tx m s)))
                (run later (deliver tx m s))) \<and>
         (field k ''t'' = JStr ''token'' \<or> field k ''t'' = JStr ''reasoning_token'' \<longrightarrow>
            (\<exists>ls c. deliver tx2 k (run later (deliver tx m s)) =
                      (run later (deliver tx m s))\<lparr>logView := ls, console := c\<rparr>))"
proof -
  let ?s1 = "deliver tx m s"
  let ?s2 = "run later ?s1"
  have s1: "currentPromptId ?s1 = JStr b \<and> currentBuffer ?s1 = [] \<and> currentReasoningBuffer ?s1 = []"
    using start_step [OF assms(3,4,2), of tx s] by (simp add: deliver_def effect_defs)
  then have "currentPromptId ?s1 \<noteq> JStr a" using assms(1) by simp
  then have na: "currentPromptId ?s2 \<noteq> JStr a"
    using assms(5) by (rule not_active_run)
  note st = stale_token_step [OF na assms(6), of tx2]
  have d: "field k ''t'' = JStr ''token'' \<or> field k ''t'' = JStr ''reasoning_token'' \<longrightarrow>
      (\<exists>ls c. deliver tx2 k ?s2 = ?s2\<lparr>logView := ls, console := c\<rparr>)"
    using st deliver_log_line [of tx2 k ?s2] by blast
  from s1 st d show ?thesis by blast
qed

theorem second_start_supersedes_first_witness:
  "''A'' \<noteq> ''B'' \<and> ''B'' \<noteq> [] \<and>
   field (msg_of ''start'' [(''id'', JStr ''B'')]) ''t'' = JStr ''start'' \<and>
   field (msg_of ''start'' [(''id'', JStr ''B'')]) ''id'' = JStr ''B'' \<and>
   \<not> is_start_for ''A'' (msg_of ''token'' [(''id'', JStr ''B''), (''tok'', JStr ''x'')]) \<and>
   \<not> is_start_for ''A'' (msg_of ''start'' [(''id'', unprintable)]) \<and>
   field (msg_of ''token'' [(''id'', JStr ''A''), (''tok'', JStr ''lo'')]) ''id'' = JStr ''A'' \<and>
   field (msg_of ''token'' [(''id'', JStr ''A''), (''tok'', JStr ''lo'')]) ''t'' = JStr ''token'' \<and>
   currentBuffer
     (deliver accept_all (msg_of ''token'' [(''id'', JStr ''A''), (''tok'', JStr ''lo'')])
        (run [(accept_all, msg_of ''token'' [(''id'', JStr ''B''), (''tok'', JStr ''x'')])]
           (deliver accept_all (msg_of ''start'' [(''id'', JStr ''B'')])
              (streaming ''A'' ''Hel'' ''hm'')))) = ''x'' \<and>
   handleIncoming accept_all (msg_of ''token'' [(''id'', JStr ''A''), (''tok'', JStr ''lo'')])
        (run [(accept_all, msg_of ''start'' [(''id'', unprintable)])]
           (deliver accept_all (msg_of ''start'' [(''id'', JStr ''B'')])
              (streaming ''A'' ''Hel'' ''hm'')))
     = Threw (run [(accept_all, msg_of ''start'' [(''id'', unprintable)])]
           (deliver accept_all (msg_of ''start'' [(''id'', JStr ''B'')])
              (streaming ''A'' ''Hel'' ''hm'')))"
proof -
  let ?start = "msg_of ''start'' [(''id'', JStr ''B'')]"
  let ?k = "msg_of ''token'' [(''id'', JStr ''A''), (''tok'', JStr ''lo'')]"
  let ?l1 = "[(accept_all, msg_of ''token'' [(''id'', JStr ''B''), (''tok'', JStr ''x'')])]"
  let ?l2 = "[(accept_all, msg_of ''start'' [(''id'', unprintable)])]"
  let ?s = "streaming ''A'' ''Hel'' ''hm''"
  have h: "''A'' \<noteq> ''B''" "''B'' \<noteq> []" "field ?start ''t'' = JStr ''start''"
    "field ?start ''id'' = JStr ''B''" "field ?k ''id'' = JStr ''A''" "field ?k ''t'' = JStr ''token''"
    by (simp_all add: msg_of_def)
  have n1: "\<not> is_start_for ''A'' (msg_of ''token'' [(''id'', JStr ''B''), (''tok'', JStr ''x'')])"
    and n2: "\<not> is_start_for ''A'' (msg_of ''start'' [(''id'', unprintable)])"
    by (simp_all add: is_start_for_def msg_of_def unprintable_def)
  have l1: "\<forall>(tx', m') \<in> set ?l1. \<not> is_start_for ''A'' m'" using n1 by simp
  have l2: "\<forall>(tx', m') \<in> set ?l2. \<not> is_start_for ''A'' m'" using n2 by simp
  note t1 = second_start_supersedes_first [OF h(1-4) l1 h(5), of accept_all ?s accept_all]
  note t2 = second_start_supersedes_first [OF h(1-4) l2 h(5), of accept_all ?s accept_all]
  have s1: "currentPromptId (deliver accept_all ?start ?s) = JStr ''B''"
    "currentBuffer (deliver accept_all ?start ?s) = []"
    using t1 by simp_all
  have b1: "currentBuffer (run ?l1 (deliver accept_all ?start ?s)) = ''x''"
    using tokens_append [of "deliver accept_all ?start ?s" "''B''"
        "[msg_of ''token'' [(''id'', JStr ''B''), (''tok'', JStr ''x'')]]" accept_all] s1
    by (simp add: run_def msg_of_def tok_text_def)
  obtain ls c where "deliver accept_all ?k (run ?l1 (deliver accept_all ?start ?s)) =
      (run ?l1 (deliver accept_all ?start ?s))\<lparr>logView := ls, console := c\<rparr>"
    using t1 h(6) by blast
  then have r1: "currentBuffer (deliver accept_all ?k (run ?l1 (deliver accept_all ?start ?s))) = ''x''"
    using b1 by simp
  have u: "currentPromptId (run ?l2 (deliver accept_all ?start ?s)) = unprintable"
    by (simp add: run_def deliver_def handleIncoming_def handle_start_def msg_of_def unprintable_def
        effect_defs line_defs caught_def)
  have "handleIncoming accept_all ?k (run ?l2 (deliver accept_all ?start ?s)) =
      log_line (mismatch_line ''Received token for unknown/mismatched id='' ?k
                  (run ?l2 (deliver accept_all ?start ?s)))
        (run ?l2 (deliver accept_all ?start ?s))"
    using t2 h(6) by blast
  moreover have "\<not> printable unprintable" by (simp add: unprintable_def)
  ultimately have r2: "handleIncoming accept_all ?k (run ?l2 (deliver accept_all ?start ?s)) =
      Threw (run ?l2 (deliver accept_all ?start ?s))"
    by (simp add: log_line_def line_printable_def mismatch_line_def u)
  from h n1 n2 r1 r2 show ?thesis by blast
qed

subsection \<open>Automatic \<^verbatim>\<open>get_model\<close> requests\<close>

lemma line_printable_TV: "line_printable [T x, V v] = printable v"
  by (simp add: line_printable_def)

lemma sent_other_outcome:
  "\<not> is_compatible_ack m \<Longrightarrow> sent (state_of (handleIncoming tx m s)) = sent s"
  by (auto simp: handleIncoming_def handler_defs outcome_simps effect_defs Let_def
      is_compatible_ack_def line_printable_TV split: option.splits jsval.splits)

lemma sent_other: "\<not> is_compatible_ack m \<Longrightarrow> sent (deliver tx m s) = sent s"
  using sent_other_outcome [of m tx s] deliver_state_of [of tx m s]
  by (auto simp: caught_fields)

lemma sent_ack:
  assumes "is_compatible_ack m" "p2pcf s" "currentPeer s = Some peer" "tx peer (JSON_stringify GetModel)"
  shows "sent (deliver tx m s) = sent s @ [(peer, JSON_stringify GetModel)]"
  using assms
  by (simp add: deliver_def handleIncoming_def handle_version_ack_def request_model_info_def
      and_then_log_line line_printable_TV effect_defs is_compatible_ack_def)

text \<open>
  C6, as the program has it. While a client and a current peer exist and the
  transport accepts the request, every \<^verbatim>\<open>version_ack\<close> message whose
  \<^verbatim>\<open>compatible\<close> is truthy and whose \<^verbatim>\<open>protocolVersion\<close> converts to text for the
  log line causes one automatic \<^verbatim>\<open>get_model\<close> send, and no other incoming message
  causes any send: over a run of incoming messages the payloads sent are as many
  \<^verbatim>\<open>get_model\<close> requests as the run has such acknowledgements. Nothing remembers
  that a request was already made, so a repeated acknowledgement repeats the
  request.
\<close>

theorem get_model_sent_per_compatible_ack:
  assumes "p2pcf s" and "currentPeer s = Some peer"
    and "\<forall>(tx, m) \<in> set evs. tx peer (JSON_stringify GetModel)"
  shows "sent (run evs s) =
           sent s @ replicate (length (filter (\<lambda>(tx, m). is_compatible_ack m) evs))
                      (peer, JSON_stringify GetModel)"
  using assms
proof (induction evs arbitrary: s)
  case Nil
  then show ?case by (simp add: run_def)
next
  case (Cons ev evs)
  obtain tx m where ev: "ev = (tx, m)" by (cases ev)
  let ?s1 = "deliver tx m s"
  have c: "p2pcf ?s1" using Cons.prems(1) by (simp add: deliver_client)
  have p: "currentPeer ?s1 = Some peer" using Cons.prems(2) by (simp add: deliver_peer)
  have rest: "\<forall>(tx, m) \<in> set evs. tx peer (JSON_stringify GetModel)" using Cons.prems(3) by simp
  have ok: "tx peer (JSON_stringify GetModel)" using Cons.prems(3) ev by simp
  have step: "sent ?s1 = sent s @ (if is_compatible_ack m then [(peer, JSON_stringify GetModel)] else [])"
    using sent_ack [where tx = tx and m = m, OF _ Cons.prems(1,2) ok] sent_other [of m tx s]
    by simp
  have "run (ev # evs) s = run evs ?s1" by (simp add: run_def ev)
  then show ?case
    using Cons.IH [OF c p rest] step ev by (simp add: replicate_append_same)
qed

lemma connected_facts:
  "p2pcf connected" "currentPeer connected = Some example_peer" "\<not> isVersionNegotiated connected"
  by (simp_all add: connected_def on_peerconnect_def effect_defs accept_all_def initial_def Let_def)

lemma ack_facts:
  "field (ack c) ''t'' = JStr ''version_ack''" "truthy (field (ack c) ''compatible'') = c"
  "is_compatible_ack (ack c) = c" "\<not> is_compatible_ack unprintable_ack"
  by (simp_all add: ack_def msg_of_def is_compatible_ack_def unprintable_ack_def unprintable_def)

theorem get_model_sent_per_compatible_ack_witness:
  "p2pcf connected \<and> currentPeer connected = Some example_peer \<and>
   accept_all example_peer (JSON_stringify GetModel) \<and>
   is_compatible_ack (ack True) \<and> \<not> is_compatible_ack (ack False) \<and>
   \<not> is_compatible_ack unprintable_ack \<and>
   sent (run [(accept_all, ack True), (accept_all, unprintable_ack), (accept_all, ack False),
              (accept_all, ack True)] connected)
     = sent connected @ [(example_peer, JSON_stringify GetModel), (example_peer, JSON_stringify GetModel)]"
  using get_model_sent_per_compatible_ack [of connected example_peer
      "[(accept_all, ack True), (accept_all, unprintable_ack), (accept_all, ack False),
        (accept_all, ack True)]"]
  by (simp add: connected_facts ack_facts accept_all_def)

text \<open>
  The claim as stated fails: after one connect, two \<^verbatim>\<open>version_ack\<close> messages with
  \<^verbatim>\<open>compatible: true\<close> put two \<^verbatim>\<open>get_model\<close> requests on the transport.
\<close>

theorem second_ack_sends_get_model_again:
  "map snd (sent (run [(accept_all, ack True), (accept_all, ack True)] connected))
     = [JSON_stringify (Hello ''test-client'' ''mydeviceai-desktop-test'' ''1.0.0''),
        JSON_stringify (VersionNegotiate ''1.0.0'' ''1.0.0''),
        JSON_stringify GetModel, JSON_stringify GetModel]"
  by (simp add: run_def deliver_def connected_def on_peerconnect_def handleIncoming_def
      handle_version_ack_def request_model_info_def effect_defs line_defs accept_all_def ack_def
      msg_of_def initial_def Let_def PROTOCOL_VERSION_def MIN_COMPATIBLE_VERSION_def)

subsection \<open>Sends and the negotiation state\<close>

lemma sendPrompt_sent:
  "sent (sendPrompt tx trim inputs ts36 s) \<noteq> sent s \<Longrightarrow>
     p2pcf s \<and> currentPeer s \<noteq> None \<and> isVersionNegotiated s \<and> truthy (isCompatible s)"
  by (auto simp: sendPrompt_def transmit_prompt_def effect_defs split: option.splits if_splits)

lemma getModelInfo_sent:
  "sent (getModelInfo tx s) \<noteq> sent s \<Longrightarrow>
     p2pcf s \<and> currentPeer s \<noteq> None \<and> isVersionNegotiated s \<and> truthy (isCompatible s)"
  by (auto simp: getModelInfo_def effect_defs split: option.splits if_splits)

lemma ack_sets_flags:
  assumes "field m ''t'' = JStr ''version_ack''"
  shows "isVersionNegotiated (state_of (handleIncoming tx m s)) \<and>
         isCompatible (state_of (handleIncoming tx m s)) = field m ''compatible''"
  using assms
  by (auto simp: handleIncoming_def handle_version_ack_def request_model_info_def outcome_simps
      effect_defs Let_def split: option.splits)

lemma incompatible_ack:
  assumes "field m ''t'' = JStr ''version_ack''" "\<not> truthy (field m ''compatible'')"
  shows "isVersionNegotiated (deliver tx m s) \<and> \<not> truthy (isCompatible (deliver tx m s))"
  using assms ack_sets_flags [OF assms(1), of tx s] deliver_state_of [of tx m s]
  by (auto simp: caught_fields)

lemma compatible_ack:
  assumes "field m ''t'' = JStr ''version_ack''" "truthy (field m ''compatible'')"
  shows "isVersionNegotiated (deliver tx m s) \<and> truthy (isCompatible (deliver tx m s))"
  using assms ack_sets_flags [OF assms(1), of tx s] deliver_state_of [of tx m s]
  by (auto simp: caught_fields)

text \<open>
  C3, as the program has it, for a state with a client and a current peer.
  \<^verbatim>\<open>sendPrompt\<close> fails with the "not negotiated" report while no \<^verbatim>\<open>version_ack\<close>
  has arrived, and with the "incompatible" report once one has arrived and
  \<^verbatim>\<open>isCompatible\<close> is falsy. \<^verbatim>\<open>getModelInfo\<close> fails in both of these states with
  one and the same report, which does not tell them apart. Either function hands
  something to the transport only in the compatible state, where \<^verbatim>\<open>getModelInfo\<close>
  does send. Right after a \<^verbatim>\<open>version_ack\<close> whose \<^verbatim>\<open>compatible\<close> is falsy, whatever
  the state was before, neither function sends anything.
\<close>

theorem sends_need_compatible_negotiation:
  assumes "p2pcf s" and "currentPeer s = Some peer"
  shows
   "(\<not> isVersionNegotiated s \<longrightarrow>
       sendPrompt tx trim inputs ts36 s =
         setStatus [T ''Waiting for protocol version negotiation...''] True
           (appendLog [T ''Cannot send: version not negotiated yet''] s)) \<and>
    (isVersionNegotiated s \<and> \<not> truthy (isCompatible s) \<longrightarrow>
       sendPrompt tx trim inputs ts36 s =
         setStatus [T ''Cannot send: protocol version incompatible with server''] True
           (appendLog [T ''Cannot send: protocol version incompatible''] s)) \<and>
    (\<not> isVersionNegotiated s \<or> \<not> truthy (isCompatible s) \<longrightarrow>
       getModelInfo tx s =
         setStatus [T ''Waiting for protocol version negotiation...''] True
           (appendLog [T ''Cannot get model info: version not negotiated or incompatible''] s)) \<and>
    (sent (sendPrompt tx trim inputs ts36 s) \<noteq> sent s \<longrightarrow>
       isVersionNegotiated s \<and> truthy (isCompatible s)) \<and>
    (sent (getModelInfo tx s) \<noteq> sent s \<longrightarrow> isVersionNegotiated s \<and> truthy (isCompatible s)) \<and>
    (isVersionNegotiated s \<and> truthy (isCompatible s) \<and> tx peer (JSON_stringify GetModel) \<longrightarrow>
       sent (getModelInfo tx s) = sent s @ [(peer, JSON_stringify GetModel)]) \<and>
    (field m ''t'' = JStr ''version_ack'' \<and> \<not> truthy (field m ''compatible'') \<longrightarrow>
       sent (sendPrompt tx trim inputs ts36 (deliver tx2 m s)) = sent (deliver tx2 m s) \<and>
       sent (getModelInfo tx (deliver tx2 m s)) = sent (deliver tx2 m s))"
proof -
  have a: "\<not> isVersionNegotiated s \<longrightarrow>
       sendPrompt tx trim inputs ts36 s =
         setStatus [T ''Waiting for protocol version negotiation...''] True
           (appendLog [T ''Cannot send: version not negotiated yet''] s)"
    using assms by (simp add: sendPrompt_def)
  have b: "isVersionNegotiated s \<and> \<not> truthy (isCompatible s) \<longrightarrow>
       sendPrompt tx trim inputs ts36 s =
         setStatus [T ''Cannot send: protocol version incompatible with server''] True
           (appendLog [T ''Cannot send: protocol version incompatible''] s)"
    using assms by (simp add: sendPrompt_def)
  have c: "\<not> isVersionNegotiated s \<or> \<not> truthy (isCompatible s) \<longrightarrow>
       getModelInfo tx s =
         setStatus [T ''Waiting for protocol version negotiation...''] True
           (appendLog [T ''Cannot get model info: version not negotiated or incompatible''] s)"
    using assms by (auto simp: getModelInfo_def)
  have d: "sent (sendPrompt tx trim inputs ts36 s) \<noteq> sent s \<longrightarrow>
       isVersionNegotiated s \<and> truthy (isCompatible s)"
    using sendPrompt_sent [of tx trim inputs ts36 s] by blast
  have e: "sent (getModelInfo tx s) \<noteq> sent s \<longrightarrow> isVersionNegotiated s \<and> truthy (isCompatible s)"
    using getModelInfo_sent [of tx s] by blast
  have f: "isVersionNegotiated s \<and> truthy (isCompatible s) \<and> tx peer (JSON_stringify GetModel) \<longrightarrow>
       sent (getModelInfo tx s) = sent s @ [(peer, JSON_stringify GetModel)]"
    using assms by (simp add: getModelInfo_def effect_defs)
  have g: "field m ''t'' = JStr ''version_ack'' \<and> \<not> truthy (field m ''compatible'') \<longrightarrow>
       sent (sendPrompt tx trim inputs ts36 (deliver tx2 m s)) = sent (deliver tx2 m s) \<and>
       sent (getModelInfo tx (deliver tx2 m s)) = sent (deliver tx2 m s)"
    using incompatible_ack [of m tx2 s]
      sendPrompt_sent [of tx trim inputs ts36 "deliver tx2 m s"]
      getModelInfo_sent [of tx "deliver tx2 m s"]
    by blast
  from a b c d e f g show ?thesis by blast
qed

theorem sends_need_compatible_negotiation_witness:
  "p2pcf connected \<and> currentPeer connected = Some example_peer \<and>
   \<not> isVersionNegotiated connected \<and>
   isVersionNegotiated (deliver accept_all (ack False) connected) \<and>
   \<not> truthy (isCompatible (deliver accept_all (ack False) connected)) \<and>
   isVersionNegotiated (deliver accept_all (ack True) connected) \<and>
   truthy (isCompatible (deliver accept_all (ack True) connected)) \<and>
   accept_all example_peer (JSON_stringify GetModel) \<and>
   field (ack False) ''t'' = JStr ''version_ack'' \<and> \<not> truthy (field (ack False) ''compatible'') \<and>
   sendPrompt accept_all example_trim example_inputs ''abc'' connected
     = setStatus [T ''Waiting for protocol version negotiation...''] True
         (appendLog [T ''Cannot send: version not negotiated yet''] connected) \<and>
   sendPrompt accept_all example_trim example_inputs ''abc''
       (deliver accept_all (ack False) connected)
     = setStatus [T ''Cannot send: protocol version incompatible with server''] True
         (appendLog [T ''Cannot send: protocol version incompatible'']
            (deliver accept_all (ack False) connected)) \<and>
   getModelInfo accept_all (deliver accept_all (ack False) connected)
     = setStatus [T ''Waiting for protocol version negotiation...''] True
         (appendLog [T ''Cannot get model info: version not negotiated or incompatible'']
            (deliver accept_all (ack False) connected)) \<and>
   sent (getModelInfo accept_all (deliver accept_all (ack True) connected))
     = sent (deliver accept_all (ack True) connected) @ [(example_peer, JSON_stringify GetModel)] \<and>
   sent (getModelInfo accept_all
           (deliver accept_all (ack False) (deliver accept_all (ack True) connected)))
     = sent (deliver accept_all (ack False) (deliver accept_all (ack True) connected))"
proof -
  let ?sF = "deliver accept_all (ack False) connected"
  let ?sT = "deliver accept_all (ack True) connected"
  have cF: "p2pcf ?sF" "currentPeer ?sF = Some example_peer"
    by (simp_all add: deliver_client deliver_peer connected_facts)
  have cT: "p2pcf ?sT" "currentPeer ?sT = Some example_peer"
    by (simp_all add: deliver_client deliver_peer connected_facts)
  have nF: "isVersionNegotiated ?sF \<and> \<not> truthy (isCompatible ?sF)"
    by (rule incompatible_ack) (simp_all add: ack_facts)
  have nT: "isVersionNegotiated ?sT \<and> truthy (isCompatible ?sT)"
    by (rule compatible_ack) (simp_all add: ack_facts)
  have ok: "accept_all example_peer (JSON_stringify GetModel)" by (simp add: accept_all_def)
  have aF: "field (ack False) ''t'' = JStr ''version_ack'' \<and> \<not> truthy (field (ack False) ''compatible'')"
    by (simp add: ack_facts)
  note t0 = sends_need_compatible_negotiation [OF connected_facts(1,2), of accept_all example_trim
                  example_inputs "''abc''" "ack False" accept_all]
  note tF = sends_need_compatible_negotiation [OF cF, of accept_all example_trim example_inputs
                  "''abc''" "ack False" accept_all]
  note tT = sends_need_compatible_negotiation [OF cT, of accept_all example_trim example_inputs
                  "''abc''" "ack False" accept_all]
  from t0 connected_facts(3)
  have r0: "sendPrompt accept_all example_trim example_inputs ''abc'' connected
     = setStatus [T ''Waiting for protocol version negotiation...''] True
         (appendLog [T ''Cannot send: version not negotiated yet''] connected)"
    by blast
  from tF nF
  have rF: "sendPrompt accept_all example_trim example_inputs ''abc'' ?sF
     = setStatus [T ''Cannot send: protocol version incompatible with server''] True
         (appendLog [T ''Cannot send: protocol version incompatible''] ?sF)"
    "getModelInfo accept_all ?sF
     = setStatus [T ''Waiting for protocol version negotiation...''] True
         (appendLog [T ''Cannot get model info: version not negotiated or incompatible''] ?sF)"
    by blast+
  from tT nT ok aF
  have rT: "sent (getModelInfo accept_all ?sT) = sent ?sT @ [(example_peer, JSON_stringify GetModel)]"
    "sent (getModelInfo accept_all (deliver accept_all (ack False) ?sT))
       = sent (deliver accept_all (ack False) ?sT)"
    by blast+
  from connected_facts nF nT ok aF r0 rF rT show ?thesis by blast
qed

text \<open>
  The claim as stated fails for \<^verbatim>\<open>get_model\<close>: in the incompatible state (a connect
  followed by \<^verbatim>\<open>version_ack\<close> with \<^verbatim>\<open>compatible: false\<close>) \<^verbatim>\<open>getModelInfo\<close> reports
  what it reports before any negotiation, the status that \<^verbatim>\<open>sendPrompt\<close> uses for
  "not negotiated", and not the status that \<^verbatim>\<open>sendPrompt\<close> uses for "incompatible".
\<close>

theorem get_model_incompatible_reported_as_not_negotiated:
  "status (getModelInfo accept_all (deliver accept_all (ack False) connected))
     = ([T ''Waiting for protocol version negotiation...''], True) \<and>
   last (logView (getModelInfo accept_all (deliver accept_all (ack False) connected)))
     = [T ''Cannot get model info: version not negotiated or incompatible''] \<and>
   getModelInfo accept_all connected
     = setStatus [T ''Waiting for protocol version negotiation...''] True
         (appendLog [T ''Cannot get model info: version not negotiated or incompatible''] connected) \<and>
   status (sendPrompt accept_all example_trim example_inputs ''abc''
             (deliver accept_all (ack False) connected))
     = ([T ''Cannot send: protocol version incompatible with server''], True)"
  by (simp add: getModelInfo_def sendPrompt_def connected_def on_peerconnect_def deliver_def
      handleIncoming_def handle_version_ack_def effect_defs line_defs js_or_def accept_all_def
      ack_def msg_of_def initial_def Let_def)

subsection \<open>The request builder and \<^verbatim>\<open>max_tokens\<close>\<close>

lemma Number_of_finite: "\<exists>q. Number_of v = Fin q"
  by (cases v) auto

lemma build_prompt_max_tokens:
  assumes "build_prompt trim sv uv mv ts36 = Some msg"
  shows "max_tokens msg = (if num_gt_zero (Number_of mv) then Some (Number_of mv) else None)"
  using assms
  by (cases mv) (auto simp: build_prompt_def maxTokens_of_def Let_def split: if_splits)

lemma build_prompt_shape:
  assumes "build_prompt trim sv uv mv ts36 = Some msg"
  shows "\<exists>i ms. msg = Prompt i ms (max_tokens msg)"
  using assms by (auto simp: build_prompt_def Let_def split: if_splits)

lemma build_prompt_id:
  "build_prompt trim sv uv mv ts36 = Some msg \<Longrightarrow> prompt_id msg = ''test-'' @ ts36"
  by (auto simp: build_prompt_def Let_def split: if_splits)

lemma build_prompt_Some:
  "trim uv \<noteq> [] \<Longrightarrow> \<exists>msg. build_prompt trim sv uv mv ts36 = Some msg"
  by (simp add: build_prompt_def Let_def)

text \<open>
  C7. The value read from the \<^verbatim>\<open>max_tokens\<close> element converts to a finite number
  (zero for the empty value). In every request that is built, the serialized
  request has the property \<^verbatim>\<open>max_tokens\<close> exactly when that number is greater than
  zero, and then the property is that number; for zero and for a negative number
  the request has no such property.
\<close>

theorem max_tokens_included_iff_positive:
  assumes "build_prompt trim sv uv mv ts36 = Some msg"
  shows "(\<exists>q. Number_of mv = Fin q) \<and>
         has_property (JSON_stringify msg) ''max_tokens'' = (\<exists>q. Number_of mv = Fin q \<and> 0 < q) \<and>
         (\<forall>q. Number_of mv = Fin q \<and> 0 < q \<longrightarrow>
               max_tokens msg = Some (Fin q) \<and>
               field (JSON_stringify msg) ''max_tokens'' = JNum (Fin q)) \<and>
         (\<forall>q. Number_of mv = Fin q \<and> q \<le> 0 \<longrightarrow>
               max_tokens msg = None \<and>
               field (JSON_stringify msg) ''max_tokens'' = JUndefined)"
proof -
  obtain q0 where q0: "Number_of mv = Fin q0" using Number_of_finite by blast
  have mt: "max_tokens msg = (if 0 < q0 then Some (Fin q0) else None)"
    using build_prompt_max_tokens [OF assms] q0 by simp
  obtain i ms where msg: "msg = Prompt i ms (max_tokens msg)"
    using build_prompt_shape [OF assms] by blast
  have hp: "has_property (JSON_stringify (Prompt i ms (max_tokens msg))) ''max_tokens'' = (0 < q0)"
    by (simp add: mt)
  have fv: "field (JSON_stringify (Prompt i ms (max_tokens msg))) ''max_tokens''
              = (if 0 < q0 then JNum (Fin q0) else JUndefined)"
    by (simp add: mt)
  have 1: "\<exists>q. Number_of mv = Fin q" using q0 by blast
  have 2: "has_property (JSON_stringify msg) ''max_tokens'' = (\<exists>q. Number_of mv = Fin q \<and> 0 < q)"
    using hp msg q0 by simp
  have 3: "\<forall>q. Number_of mv = Fin q \<and> 0 < q \<longrightarrow>
             max_tokens msg = Some (Fin q) \<and> field (JSON_stringify msg) ''max_tokens'' = JNum (Fin q)"
    using fv mt msg q0 by auto
  have 4: "\<forall>q. Number_of mv = Fin q \<and> q \<le> 0 \<longrightarrow>
             max_tokens msg = None \<and> field (JSON_stringify msg) ''max_tokens'' = JUndefined"
    using fv mt msg q0 by auto
  from 1 2 3 4 show ?thesis by blast
qed

lemma example_trim_facts:
  "example_trim '' hi '' = ''hi''" "example_trim ''sys'' = ''sys''" "example_trim [] = []"
  "example_trim ''hi'' = ''hi''"
  by (simp_all add: example_trim_def is_ws_def)

theorem max_tokens_included_iff_positive_witness:
  "build_prompt example_trim ''sys'' '' hi '' (NumberText 256) ''abc''
     = Some (Prompt ''test-abc'' [\<lparr>role = System, content = ''sys''\<rparr>, \<lparr>role = User, content = ''hi''\<rparr>]
               (Some (Fin 256))) \<and>
   Number_of (NumberText 256) = Fin 256 \<and> (0::rat) < 256 \<and>
   field (JSON_stringify (Prompt ''test-abc''
       [\<lparr>role = System, content = ''sys''\<rparr>, \<lparr>role = User, content = ''hi''\<rparr>] (Some (Fin 256))))
     ''max_tokens'' = JNum (Fin 256) \<and>
   build_prompt example_trim [] ''hi'' EmptyValue ''abc''
     = Some (Prompt ''test-abc'' [\<lparr>role = User, content = ''hi''\<rparr>] None) \<and>
   Number_of EmptyValue = Fin 0 \<and> (0::rat) \<le> 0 \<and>
   \<not> has_property (JSON_stringify (Prompt ''test-abc'' [\<lparr>role = User, content = ''hi''\<rparr>] None))
       ''max_tokens''"
  using max_tokens_included_iff_positive [of example_trim "''sys''" "'' hi ''" "NumberText 256" "''abc''"
            "Prompt ''test-abc'' [\<lparr>role = System, content = ''sys''\<rparr>, \<lparr>role = User, content = ''hi''\<rparr>]
               (Some (Fin 256))"]
        max_tokens_included_iff_positive [of example_trim "[]" "''hi''" EmptyValue "''abc''"
            "Prompt ''test-abc'' [\<lparr>role = User, content = ''hi''\<rparr>] None"]
  by (simp add: build_prompt_def maxTokens_of_def build_messages_def example_trim_facts
      stringify_message_def Let_def)

subsection \<open>After a prompt was sent\<close>

lemma sendPrompt_success:
  assumes "p2pcf s" "currentPeer s = Some peer" "isVersionNegotiated s" "truthy (isCompatible s)"
    "systemPromptEl inputs = Some sv" "userPromptEl inputs = Some uv" "maxTokensEl inputs = Some mv"
    "build_prompt trim sv uv mv ts36 = Some msg" "tx peer (JSON_stringify msg)"
  shows "sendPrompt tx trim inputs ts36 s =
     s\<lparr>sent := sent s @ [(peer, JSON_stringify msg)],
       logView := logView s @ [sent_prompt_line msg],
       status := ([T ''Prompt sent. Waiting for streamed tokens...''], False),
       currentPromptId := JStr (''test-'' @ ts36), currentBuffer := [], currentReasoningBuffer := [],
       resultView := [], reasoningView := []\<rparr>"
  using assms build_prompt_id [OF assms(8)]
  by (simp add: sendPrompt_def transmit_prompt_def effect_defs)

text \<open>
  C9. When a client and a peer exist, the version is negotiated and compatible, the
  three input elements exist, the user message is not blank (its trimmed text is
  not empty) and the transport accepts the request, then the request is built and
  handed to the transport, and right after \<^verbatim>\<open>sendPrompt\<close> the active id is the id of
  that request and both buffers are empty. \<^verbatim>\<open>token\<close> messages with that id and a
  string \<^verbatim>\<open>tok\<close> that arrive next, with no \<^verbatim>\<open>start\<close> before them, are appended: the
  visible buffer then holds exactly their texts in order; and so for
  \<^verbatim>\<open>reasoning_token\<close> messages and the reasoning buffer.
\<close>

theorem prompt_sent_sets_active_id:
  assumes "p2pcf s" and "currentPeer s = Some peer"
    and "isVersionNegotiated s" and "truthy (isCompatible s)"
    and "systemPromptEl inputs = Some sv" and "userPromptEl inputs = Some uv"
    and "maxTokensEl inputs = Some mv"
    and "trim uv \<noteq> []"
    and "\<forall>msg. build_prompt trim sv uv mv ts36 = Some msg \<longrightarrow> tx peer (JSON_stringify msg)"
    and "\<forall>k \<in> set toks. field k ''t'' = JStr ''token'' \<and> field k ''id'' = JStr (''test-'' @ ts36) \<and>
                          is_string (field k ''tok'')"
    and "\<forall>k \<in> set rtoks. field k ''t'' = JStr ''reasoning_token'' \<and>
                           field k ''id'' = JStr (''test-'' @ ts36) \<and> is_string (field k ''tok'')"
  shows "(\<exists>msg. build_prompt trim sv uv mv ts36 = Some msg \<and> prompt_id msg = ''test-'' @ ts36 \<and>
            sent (sendPrompt tx trim inputs ts36 s) = sent s @ [(peer, JSON_stringify msg)]) \<and>
         currentPromptId (sendPrompt tx trim inputs ts36 s) = JStr (''test-'' @ ts36) \<and>
         currentBuffer (sendPrompt tx trim inputs ts36 s) = [] \<and>
         currentReasoningBuffer (sendPrompt tx trim inputs ts36 s) = [] \<and>
         currentBuffer (fold (deliver tx2) toks (sendPrompt tx trim inputs ts36 s))
           = concat (map tok_text toks) \<and>
         currentReasoningBuffer (fold (deliver tx2) rtoks (sendPrompt tx trim inputs ts36 s))
           = concat (map tok_text rtoks)"
proof -
  obtain msg where msg: "build_prompt trim sv uv mv ts36 = Some msg"
    using build_prompt_Some [where trim = trim and uv = uv, OF assms(8)] by blast
  have ok: "tx peer (JSON_stringify msg)" using assms(9) msg by blast
  note eq = sendPrompt_success [where tx = tx, OF assms(1-7) msg ok]
  let ?s1 = "sendPrompt tx trim inputs ts36 s"
  have sent: "\<exists>msg. build_prompt trim sv uv mv ts36 = Some msg \<and> prompt_id msg = ''test-'' @ ts36 \<and>
           sent ?s1 = sent s @ [(peer, JSON_stringify msg)]"
    using msg build_prompt_id [OF msg] by (simp add: eq)
  have id: "currentPromptId ?s1 = JStr (''test-'' @ ts36)" by (simp add: eq)
  have b: "currentBuffer ?s1 = []" by (simp add: eq)
  have r: "currentReasoningBuffer ?s1 = []" by (simp add: eq)
  have ne: "''test-'' @ ts36 \<noteq> []" by simp
  have t: "currentBuffer (fold (deliver tx2) toks ?s1) = concat (map tok_text toks)"
    using tokens_append [OF id ne assms(10), of tx2] b by simp
  have rt: "currentReasoningBuffer (fold (deliver tx2) rtoks ?s1) = concat (map tok_text rtoks)"
    using reasoning_tokens_append [OF id ne assms(11), of tx2] r by simp
  from sent id b r t rt show ?thesis by blast
qed

theorem prompt_sent_sets_active_id_witness:
  "p2pcf (streaming ''old'' ''Hel'' ''hm'') \<and>
   currentPeer (streaming ''old'' ''Hel'' ''hm'') = Some example_peer \<and>
   isVersionNegotiated (streaming ''old'' ''Hel'' ''hm'') \<and>
   truthy (isCompatible (streaming ''old'' ''Hel'' ''hm'')) \<and>
   example_trim '' hi '' = ''hi'' \<and>
   field (msg_of ''token'' [(''id'', JStr ''test-abc''), (''tok'', JStr ''Hi'')]) ''t'' = JStr ''token'' \<and>
   field (msg_of ''reasoning_token'' [(''id'', JStr ''test-abc''), (''tok'', JStr ''hm'')]) ''t''
     = JStr ''reasoning_token'' \<and>
   currentPromptId (sendPrompt accept_all example_trim example_inputs ''abc''
                      (streaming ''old'' ''Hel'' ''hm'')) = JStr ''test-abc'' \<and>
   currentBuffer (sendPrompt accept_all example_trim example_inputs ''abc''
                      (streaming ''old'' ''Hel'' ''hm'')) = [] \<and>
   currentBuffer
     (fold (deliver accept_all) [msg_of ''token'' [(''id'', JStr ''test-abc''), (''tok'', JStr ''Hi'')]]
        (sendPrompt accept_all example_trim example_inputs ''abc''
           (streaming ''old'' ''Hel'' ''hm''))) = ''Hi'' \<and>
   currentReasoningBuffer
     (fold (deliver accept_all)
        [msg_of ''reasoning_token'' [(''id'', JStr ''test-abc''), (''tok'', JStr ''hm'')]]
        (sendPrompt accept_all example_trim example_inputs ''abc''
           (streaming ''old'' ''Hel'' ''hm''))) = ''hm''"
  using prompt_sent_sets_active_id [of "streaming ''old'' ''Hel'' ''hm''" example_peer example_inputs
      "''You are a helpful assistant.''" "'' hi ''" "NumberText 256" example_trim "''abc''" accept_all
      "[msg_of ''token'' [(''id'', JStr ''test-abc''), (''tok'', JStr ''Hi'')]]"
      "[msg_of ''reasoning_token'' [(''id'', JStr ''test-abc''), (''tok'', JStr ''hm'')]]" accept_all]
  by (simp add: streaming_def initial_def example_inputs_def accept_all_def msg_of_def
      example_trim_facts tok_text_def)

subsection \<open>Classification of incoming payloads\<close>

lemma string_field_truthy: "is_string (field msg k) \<Longrightarrow> truthy msg"
  by (cases msg) auto

lemma unknown_tag:
  assumes "field msg ''t'' = JStr t" "t \<notin> set known_tags"
  shows "handleIncoming tx msg s =
           Returned (appendLog [T (''Ignoring unknown message type '' @ dquote), V (JStr t), T dquote] s)"
  using assms by (auto simp: handleIncoming_def known_tags_def handle_unknown_def line_defs)

lemma asString_payload_text: "spans_buffer data \<Longrightarrow> asString decode data = payload_text decode data"
  by (cases data) auto

text \<open>
  C8, as the program has it. The \<^verbatim>\<open>msg\<close> handler is a total function of the payload
  and lets no exception out. For a string, a byte buffer, and a byte-array view
  that is not a part of a larger \<^verbatim>\<open>ArrayBuffer\<close>, the text that is classified is the
  text of the payload. A payload that is neither a string nor bytes is rejected as
  unsupported, and so is every payload whose text is empty. Text that is not empty
  and does not parse is rejected as not JSON. A parsed value without a string
  \<^verbatim>\<open>t\<close> is rejected as missing \<^verbatim>\<open>t\<close>. A parsed value with a string \<^verbatim>\<open>t\<close> goes to
  \<^verbatim>\<open>handleIncoming\<close> inside the \<^verbatim>\<open>try\<close>, where a tag that is none of the known ones
  takes the default branch and returns: one log line, no other change. Each
  rejection also is one log line and no other change. (For a view on a part of a
  larger \<^verbatim>\<open>ArrayBuffer\<close> the program decodes the whole buffer; nothing is stated
  about such payloads.)
\<close>

theorem payload_classification:
  assumes "spans_buffer data"
  shows
  "asString decode data = payload_text decode data \<and>
   (payload_text decode data = None \<longrightarrow>
      on_msg decode parse tx data s = unsupported_payload data s) \<and>
   (payload_text decode data = Some [] \<longrightarrow>
      on_msg decode parse tx data s = unsupported_payload data s) \<and>
   (payload_text decode data = Some text \<and> text \<noteq> [] \<and> parse text = None \<longrightarrow>
      on_msg decode parse tx data s = non_json text s) \<and>
   (payload_text decode data = Some text \<and> text \<noteq> [] \<and> parse text = Some msg \<and>
    \<not> is_string (field msg ''t'') \<longrightarrow>
      on_msg decode parse tx data s = missing_t text s) \<and>
   (payload_text decode data = Some text \<and> text \<noteq> [] \<and> parse text = Some msg \<and>
    is_string (field msg ''t'') \<longrightarrow>
      on_msg decode parse tx data s = deliver tx msg s) \<and>
   (payload_text decode data = Some text \<and> text \<noteq> [] \<and> parse text = Some msg \<and>
    field msg ''t'' = JStr t \<and> t \<notin> set known_tags \<longrightarrow>
      handleIncoming tx msg s =
        Returned (appendLog [T (''Ignoring unknown message type '' @ dquote), V (JStr t), T dquote] s) \<and>
      on_msg decode parse tx data s =
        appendLog [T (''Ignoring unknown message type '' @ dquote), V (JStr t), T dquote] s)"
proof -
  note a = asString_payload_text [OF assms, of decode]
  have u: "payload_text decode data = None \<longrightarrow>
      on_msg decode parse tx data s = unsupported_payload data s"
    by (simp add: on_msg_def a)
  have e: "payload_text decode data = Some [] \<longrightarrow>
      on_msg decode parse tx data s = unsupported_payload data s"
    by (simp add: on_msg_def a)
  have n: "payload_text decode data = Some text \<and> text \<noteq> [] \<and> parse text = None \<longrightarrow>
      on_msg decode parse tx data s = non_json text s"
    by (simp add: on_msg_def a)
  have m: "payload_text decode data = Some text \<and> text \<noteq> [] \<and> parse text = Some msg \<and>
      \<not> is_string (field msg ''t'') \<longrightarrow> on_msg decode parse tx data s = missing_t text s"
    by (simp add: on_msg_def a)
  have h: "payload_text decode data = Some text \<and> text \<noteq> [] \<and> parse text = Some msg \<and>
      is_string (field msg ''t'') \<longrightarrow> on_msg decode parse tx data s = deliver tx msg s"
    using string_field_truthy [of msg "''t''"] by (auto simp: on_msg_def a)
  have k: "payload_text decode data = Some text \<and> text \<noteq> [] \<and> parse text = Some msg \<and>
      field msg ''t'' = JStr t \<and> t \<notin> set known_tags \<longrightarrow>
      handleIncoming tx msg s =
        Returned (appendLog [T (''Ignoring unknown message type '' @ dquote), V (JStr t), T dquote] s) \<and>
      on_msg decode parse tx data s =
        appendLog [T (''Ignoring unknown message type '' @ dquote), V (JStr t), T dquote] s"
  proof (intro impI, elim conjE)
    assume b: "payload_text decode data = Some text" "text \<noteq> []" "parse text = Some msg"
      "field msg ''t'' = JStr t" "t \<notin> set known_tags"
    have r: "handleIncoming tx msg s =
        Returned (appendLog [T (''Ignoring unknown message type '' @ dquote), V (JStr t), T dquote] s)"
      using b(4,5) by (rule unknown_tag)
    have "on_msg decode parse tx data s = deliver tx msg s" using h b by simp
    then have "on_msg decode parse tx data s =
        appendLog [T (''Ignoring unknown message type '' @ dquote), V (JStr t), T dquote] s"
      by (simp add: deliver_def r)
    with r show "handleIncoming tx msg s =
        Returned (appendLog [T (''Ignoring unknown message type '' @ dquote), V (JStr t), T dquote] s) \<and>
      on_msg decode parse tx data s =
        appendLog [T (''Ignoring unknown message type '' @ dquote), V (JStr t), T dquote] s"
      by simp
  qed
  from a u e n m h k show ?thesis by simp
qed

lemma example_facts:
  "example_decode [] = []"
  "example_decode [0x7B, 0x7D] = ''{}''"
  "ping_text \<noteq> []"
  "example_parse ping_text = Some (msg_of ''ping'' [])"
  "example_parse ''nope'' = None"
  "example_parse ''{}'' = Some (JObj [])"
  "field (msg_of ''ping'' []) ''t'' = JStr ''ping''"
  "''ping'' \<notin> set known_tags"
  "\<not> is_string (field (JObj []) ''t'')"
  by (simp_all add: example_decode_def example_parse_def ping_text_def msg_of_def known_tags_def
      dquote_def)

theorem payload_classification_witness:
  "spans_buffer (PViewOnArrayBuffer [] 0 0) \<and>
   payload_text example_decode (PViewOnArrayBuffer [] 0 0) = Some [] \<and>
   on_msg example_decode example_parse accept_all (PViewOnArrayBuffer [] 0 0) initial
     = unsupported_payload (PViewOnArrayBuffer [] 0 0) initial \<and>
   spans_buffer (POther ''number'') \<and> payload_text example_decode (POther ''number'') = None \<and>
   on_msg example_decode example_parse accept_all (POther ''number'') initial
     = unsupported_payload (POther ''number'') initial \<and>
   spans_buffer (PString ''nope'') \<and>
   payload_text example_decode (PString ''nope'') = Some ''nope'' \<and> ''nope'' \<noteq> [] \<and>
   example_parse ''nope'' = None \<and>
   on_msg example_decode example_parse accept_all (PString ''nope'') initial = non_json ''nope'' initial \<and>
   spans_buffer (PViewOnArrayBuffer [0x7B, 0x7D] 0 2) \<and>
   payload_text example_decode (PViewOnArrayBuffer [0x7B, 0x7D] 0 2) = Some ''{}'' \<and>
   example_parse ''{}'' = Some (JObj []) \<and> \<not> is_string (field (JObj []) ''t'') \<and>
   on_msg example_decode example_parse accept_all (PViewOnArrayBuffer [0x7B, 0x7D] 0 2) initial
     = missing_t ''{}'' initial \<and>
   spans_buffer (PString ping_text) \<and>
   payload_text example_decode (PString ping_text) = Some ping_text \<and> ping_text \<noteq> [] \<and>
   example_parse ping_text = Some (msg_of ''ping'' []) \<and>
   field (msg_of ''ping'' []) ''t'' = JStr ''ping'' \<and> ''ping'' \<notin> set known_tags \<and>
   on_msg example_decode example_parse accept_all (PString ping_text) initial
     = appendLog [T (''Ignoring unknown message type '' @ dquote), V (JStr ''ping''), T dquote] initial"
proof -
  have sp: "spans_buffer (PViewOnArrayBuffer [] 0 0)" "spans_buffer (POther ''number'')"
    "spans_buffer (PString ''nope'')" "spans_buffer (PViewOnArrayBuffer [0x7B, 0x7D] 0 2)"
    "spans_buffer (PString ping_text)"
    by (simp_all add: view_bytes_def)
  have pt: "payload_text example_decode (PViewOnArrayBuffer [] 0 0) = Some []"
    "payload_text example_decode (POther ''number'') = None"
    "payload_text example_decode (PString ''nope'') = Some ''nope''"
    "payload_text example_decode (PViewOnArrayBuffer [0x7B, 0x7D] 0 2) = Some ''{}''"
    "payload_text example_decode (PString ping_text) = Some ping_text"
    by (simp_all add: view_bytes_def example_facts)
  have ne: "''nope'' \<noteq> []" "''{}'' \<noteq> []" by simp_all
  note t1 = payload_classification [OF sp(1), of example_decode example_parse accept_all initial]
  note t2 = payload_classification [OF sp(2), of example_decode example_parse accept_all initial]
  note t3 = payload_classification [OF sp(3), of example_decode example_parse accept_all initial
                                     "''nope''"]
  note t4 = payload_classification [OF sp(4), of example_decode example_parse accept_all initial
                                     "''{}''" "JObj []"]
  note t5 = payload_classification [OF sp(5), of example_decode example_parse accept_all initial
                                     ping_text "msg_of ''ping'' []" "''ping''"]
  have r1: "on_msg example_decode example_parse accept_all (PViewOnArrayBuffer [] 0 0) initial
     = unsupported_payload (PViewOnArrayBuffer [] 0 0) initial"
    using t1 pt(1) by blast
  have r2: "on_msg example_decode example_parse accept_all (POther ''number'') initial
     = unsupported_payload (POther ''number'') initial"
    using t2 pt(2) by blast
  have r3: "on_msg example_decode example_parse accept_all (PString ''nope'') initial
     = non_json ''nope'' initial"
    using t3 pt(3) ne(1) example_facts(5) by blast
  have r4: "on_msg example_decode example_parse accept_all (PViewOnArrayBuffer [0x7B, 0x7D] 0 2) initial
     = missing_t ''{}'' initial"
    using t4 pt(4) ne(2) example_facts(6,9) by blast
  have r5: "on_msg example_decode example_parse accept_all (PString ping_text) initial
     = appendLog [T (''Ignoring unknown message type '' @ dquote), V (JStr ''ping''), T dquote] initial"
    using t5 pt(5) example_facts(3,4,7,8) by blast
  from sp pt ne r1 r2 r3 r4 r5 example_facts show ?thesis by blast
qed

text \<open>
  The claim as stated fails on the empty text, which \<^verbatim>\<open>JSON.parse\<close> does not parse:
  the test \<^verbatim>\<open>!asString\<close> rejects it before parsing, with the line for an
  unsupported payload and not with the line for text that is not JSON.
\<close>

theorem empty_text_is_unsupported_not_malformed:
  "example_parse [] = None \<and>
   on_msg example_decode example_parse accept_all (PString []) initial
     = appendLog [T ''Received unsupported payload type: '', T ''string''] initial \<and>
   on_msg example_decode example_parse accept_all (PString []) initial \<noteq> non_json [] initial"
  by (simp add: on_msg_def unsupported_payload_def non_json_def example_parse_def ping_text_def
      appendLog_def initial_def)

subsection \<open>The active id is \<^verbatim>\<open>null\<close> or truthy\<close>

lemma active_id_ok_initial: "active_id_ok initial"
  by (simp add: active_id_ok_def initial_def)

lemma active_id_ok_handleIncoming:
  "active_id_ok s \<Longrightarrow> active_id_ok (state_of (handleIncoming tx m s))"
  by (auto simp: active_id_ok_def handleIncoming_def handler_defs outcome_simps effect_defs Let_def
      split: option.splits jsval.splits)

lemma active_id_ok_deliver: "active_id_ok s \<Longrightarrow> active_id_ok (deliver tx m s)"
  using active_id_ok_handleIncoming [of s tx m] deliver_state_of [of tx m s]
  by (auto simp: active_id_ok_def caught_fields)

lemma active_id_ok_on_msg: "active_id_ok s \<Longrightarrow> active_id_ok (on_msg decode parse tx data s)"
  using active_id_ok_deliver [of s tx]
  by (auto simp: on_msg_def unsupported_payload_def non_json_def missing_t_def appendLog_def
      active_id_ok_def split: option.splits)

lemma active_id_ok_sendPrompt:
  "active_id_ok s \<Longrightarrow> active_id_ok (sendPrompt tx trim inputs ts36 s)"
  by (auto simp: active_id_ok_def sendPrompt_def transmit_prompt_def effect_defs
      dest: build_prompt_id split: option.splits if_splits)

lemma active_id_ok_peer_events:
  "active_id_ok s \<Longrightarrow> active_id_ok (on_peerconnect tx peer s)"
  "active_id_ok s \<Longrightarrow> active_id_ok (on_peerclose peer s)"
  "active_id_ok s \<Longrightarrow> active_id_ok (getModelInfo tx s)"
  by (auto simp: active_id_ok_def on_peerconnect_def on_peerclose_def getModelInfo_def
      negotiate_failed_def effect_defs Let_def split: option.splits if_splits)

end
